theory Spec2Isabelle
  imports Complex_Main "HOL-Library.Multiset"
begin

section \<open>Numbers\<close>

text \<open>
  Python's \<^verbatim>\<open>float\<close> values are modelled as exact reals: every arithmetic
  operation of the source is the corresponding operation on \<^typ>\<open>real\<close>.
  \<^verbatim>\<open>round(x, nd)\<close> rounds to \<open>nd\<close> decimal places, a tie going to the even
  neighbour.
\<close>

definition round_half_even :: "real \<Rightarrow> int" where
  "round_half_even x =
     (let f = \<lfloor>x\<rfloor>; d = x - of_int f
      in if d < 1 / 2 then f
         else if 1 / 2 < d then f + 1
         else if even f then f else f + 1)"

definition py_round :: "real \<Rightarrow> nat \<Rightarrow> real" where
  "py_round x nd = of_int (round_half_even (x * 10 ^ nd)) / 10 ^ nd"

section \<open>metrics.py: the normalizer\<close>

text \<open>
  \<^verbatim>\<open>_normalize_score(value, min_val, max_val, inverse=False)\<close>.
\<close>

definition normalize_score :: "real \<Rightarrow> real \<Rightarrow> real \<Rightarrow> bool \<Rightarrow> real" where
  "normalize_score val min_val max_val inverse_flag =
     (if max_val = min_val then 50
      else
        let normalized = (val - min_val) / (max_val - min_val);
            normalized = max 0 (min 1 normalized);
            normalized = (if inverse_flag then 1 - normalized else normalized)
        in py_round (normalized * 100) 2)"

section \<open>scoring.py: the weighted score\<close>

text \<open>
  A \<^verbatim>\<open>dict[str, float]\<close> that is iterated is an association list in insertion
  order; a dict that is only looked up is a map.  \<^verbatim>\<open>DEFAULT_WEIGHTS\<close> is the
  module constant.
\<close>

definition DEFAULT_WEIGHTS :: "string \<rightharpoonup> real" where
  "DEFAULT_WEIGHTS =
     [''commit_frequency'' \<mapsto> 0.25,
      ''issue_resolution'' \<mapsto> 0.25,
      ''pr_rejection'' \<mapsto> 0.25,
      ''test_ratio'' \<mapsto> 0.25]"

text \<open>
  The weight the loop body uses for one metric: \<^verbatim>\<open>weights.get(name, 0.0)\<close>,
  replaced by \<^verbatim>\<open>1.0 / len(scores)\<close> when it is zero and the name is not a key.
\<close>

definition metric_weight :: "(string \<rightharpoonup> real) \<Rightarrow> nat \<Rightarrow> string \<Rightarrow> real" where
  "metric_weight weights n metric_name =
     (let weight = (case weights metric_name of None \<Rightarrow> 0 | Some w \<Rightarrow> w)
      in if weight = 0 \<and> weights metric_name = None then 1 / real n else weight)"

text \<open>
  The \<^verbatim>\<open>for\<close> loop over \<^verbatim>\<open>scores.items()\<close>, its state being the pair
  \<^verbatim>\<open>(weighted_sum, total_weight)\<close>.
\<close>

fun weighted_loop ::
  "(string \<rightharpoonup> real) \<Rightarrow> nat \<Rightarrow> (string \<times> real) list \<Rightarrow> real \<times> real \<Rightarrow> real \<times> real" where
  "weighted_loop weights n [] acc = acc"
| "weighted_loop weights n ((metric_name, score) # rest) (weighted_sum, total_weight) =
     (let weight = metric_weight weights n metric_name
      in weighted_loop weights n rest (weighted_sum + score * weight, total_weight + weight))"

definition calculate_weighted_score ::
  "(string \<times> real) list \<Rightarrow> (string \<rightharpoonup> real) option \<Rightarrow> real" where
  "calculate_weighted_score scores weights_opt =
     (if scores = [] then 0
      else
        let weights = (case weights_opt of None \<Rightarrow> DEFAULT_WEIGHTS | Some w \<Rightarrow> w);
            (weighted_sum, total_weight) = weighted_loop weights (length scores) scores (0, 0)
        in if total_weight = 0 then 0
           else weighted_sum / total_weight * (if total_weight \<le> 1 then total_weight else 1))"

text \<open>
  The two sums the loop accumulates, written as sums over the items.
\<close>

definition weighted_sum_of :: "(string \<rightharpoonup> real) \<Rightarrow> (string \<times> real) list \<Rightarrow> real" where
  "weighted_sum_of weights scores =
     (\<Sum>(metric_name, score) \<leftarrow> scores. score * metric_weight weights (length scores) metric_name)"

definition total_weight_of :: "(string \<rightharpoonup> real) \<Rightarrow> (string \<times> real) list \<Rightarrow> real" where
  "total_weight_of weights scores =
     (\<Sum>(metric_name, score) \<leftarrow> scores. metric_weight weights (length scores) metric_name)"

definition weights_or_default :: "(string \<rightharpoonup> real) option \<Rightarrow> (string \<rightharpoonup> real)" where
  "weights_or_default weights_opt = (case weights_opt of None \<Rightarrow> DEFAULT_WEIGHTS | Some w \<Rightarrow> w)"

section \<open>Python values, timestamps and the library\<close>

text \<open>
  The exceptions the modelled code can raise.  A function that may raise returns
  \<open>error + 'a\<close>, \<open>Inl\<close> being the raised exception.
\<close>

datatype error = AttributeError | TypeError

text \<open>
  A \<^verbatim>\<open>datetime\<close>: the wall-clock reading in microseconds since midnight of day 0 of
  the proleptic Gregorian calendar (so that \<open>wall div 86400000000\<close> is
  \<^verbatim>\<open>date.toordinal()\<close>), and the UTC offset in microseconds of an aware value;
  \<open>None\<close> marks a naive one.
\<close>

record datetime =
  wall :: int
  utcoffset :: "int option"

text \<open>
  The records the computations receive are decoded JSON: \<^verbatim>\<open>Any\<close> is the type
  below.  A dict has string keys and is looked up with \<^const>\<open>map_of\<close>.
\<close>

datatype pyval =
    PNone
  | PBool bool
  | PInt int
  | PFloat real
  | PStr string
  | PList "pyval list"
  | PDict "(string \<times> pyval) list"
  | PDatetime datetime

text \<open>Truth value testing, as in \<^verbatim>\<open>if date:\<close>.\<close>

fun truthy :: "pyval \<Rightarrow> bool" where
  "truthy PNone = False"
| "truthy (PBool b) = b"
| "truthy (PInt i) = (i \<noteq> 0)"
| "truthy (PFloat x) = (x \<noteq> 0)"
| "truthy (PStr s) = (s \<noteq> [])"
| "truthy (PList xs) = (xs \<noteq> [])"
| "truthy (PDict kvs) = (kvs \<noteq> [])"
| "truthy (PDatetime d) = True"

text \<open>
  Strings are sequences of ASCII characters.  \<^verbatim>\<open>str.lower()\<close> maps the capital
  letters to the small ones.
\<close>

definition lower_char :: "char \<Rightarrow> char" where
  "lower_char c =
     (if (65 :: nat) \<le> of_char c \<and> of_char c \<le> (90 :: nat)
      then char_of (of_char c + (32 :: nat)) else c)"

definition py_lower :: "string \<Rightarrow> string" where
  "py_lower s = map lower_char s"

text \<open>\<^verbatim>\<open>s.endswith(ext)\<close>.\<close>

definition endswith :: "string \<Rightarrow> string \<Rightarrow> bool" where
  "endswith s ext = (length ext \<le> length s \<and> drop (length s - length ext) s = ext)"

text \<open>\<^verbatim>\<open>date_str.replace('Z', '+00:00')\<close>: every \<open>Z\<close> is replaced.\<close>

fun replace_Z :: "string \<Rightarrow> string" where
  "replace_Z [] = []"
| "replace_Z (c # cs) = (if c = CHR ''Z'' then ''+00:00'' @ replace_Z cs else c # replace_Z cs)"

text \<open>\<^verbatim>\<open>date_str.split('+')[0]\<close>: the text before the first plus sign.\<close>

definition split_plus_head :: "string \<Rightarrow> string" where
  "split_plus_head s = takeWhile (\<lambda>c. c \<noteq> CHR ''+'') s"

text \<open>
  The standard library and the clock are parameters of the model:
  \<^item> \<open>fromisoformat s\<close> is \<^verbatim>\<open>datetime.fromisoformat(s)\<close>, \<open>None\<close> when it raises
    \<^verbatim>\<open>ValueError\<close>;
  \<^item> \<open>strptime s fmt\<close> is \<^verbatim>\<open>datetime.strptime(s, fmt)\<close> for the two formats of the
    source, neither of which has a zone directive: it gives the wall-clock reading of
    a naive value, \<open>None\<close> when it raises \<^verbatim>\<open>ValueError\<close>;
  \<^item> \<open>clock k\<close> is the wall-clock reading of the \<open>k\<close>-th call of
    \<^verbatim>\<open>datetime.now()\<close> during one computation (a naive value);
  \<^item> \<open>str_of v\<close> is \<^verbatim>\<open>str(v)\<close> for a value that is no string.
\<close>

record pylib =
  fromisoformat :: "string \<Rightarrow> datetime option"
  strptime :: "string \<Rightarrow> string \<Rightarrow> int option"
  clock :: "nat \<Rightarrow> int"
  str_of :: "pyval \<Rightarrow> string"

definition naive :: "int \<Rightarrow> datetime" where
  "naive w = \<lparr>wall = w, utcoffset = None\<rparr>"

definition is_aware :: "datetime \<Rightarrow> bool" where
  "is_aware d = (utcoffset d \<noteq> None)"

text \<open>
  The instant two values of the same kind are compared by and subtracted at: the
  wall-clock reading of a naive value, the UTC instant of an aware one.
\<close>

definition instant :: "datetime \<Rightarrow> int" where
  "instant d = (case utcoffset d of None \<Rightarrow> wall d | Some off \<Rightarrow> wall d - off)"

definition us_per_day :: int where
  "us_per_day = 86400000000"

text \<open>\<^verbatim>\<open>d.date()\<close> as a day number; \<^verbatim>\<open>strftime("%Y-%m-%d")\<close> prints this day.\<close>

definition date_of :: "datetime \<Rightarrow> int" where
  "date_of d = wall d div us_per_day"

text \<open>
  \<^verbatim>\<open>a - b\<close> on two datetimes gives a \<^verbatim>\<open>timedelta\<close>, here in microseconds; a naive
  and an aware operand raise \<^verbatim>\<open>TypeError\<close>.
\<close>

definition dt_sub :: "datetime \<Rightarrow> datetime \<Rightarrow> error + int" where
  "dt_sub a b = (if is_aware a = is_aware b then Inr (instant a - instant b) else Inl TypeError)"

text \<open>\<^verbatim>\<open>timedelta.days\<close> and \<^verbatim>\<open>timedelta.total_seconds()\<close>.\<close>

definition timedelta_days :: "int \<Rightarrow> int" where
  "timedelta_days us = us div us_per_day"

definition total_seconds :: "int \<Rightarrow> real" where
  "total_seconds us = of_int us / 1000000"

text \<open>
  \<^verbatim>\<open>dates.sort()\<close>: a stable sort by \<open><\<close>.  Comparing a naive with an aware value
  raises \<^verbatim>\<open>TypeError\<close>, and a sort of a list that holds both kinds has to compare
  two such values.
\<close>

definition comparable :: "datetime list \<Rightarrow> bool" where
  "comparable ds = (list_all is_aware ds \<or> list_all (\<lambda>d. \<not> is_aware d) ds)"

definition sort_datetimes :: "datetime list \<Rightarrow> error + datetime list" where
  "sort_datetimes ds = (if comparable ds then Inr (sort_key instant ds) else Inl TypeError)"

text \<open>
  \<^verbatim>\<open>min(dates)\<close> and \<^verbatim>\<open>max(dates)\<close> on a non-empty list of comparable values: the
  first least and the first greatest element.
\<close>

fun py_min_from :: "datetime \<Rightarrow> datetime list \<Rightarrow> datetime" where
  "py_min_from m [] = m"
| "py_min_from m (d # ds) = py_min_from (if instant d < instant m then d else m) ds"

fun py_max_from :: "datetime \<Rightarrow> datetime list \<Rightarrow> datetime" where
  "py_max_from m [] = m"
| "py_max_from m (d # ds) = py_max_from (if instant m < instant d then d else m) ds"

text \<open>
  \<^verbatim>\<open>_parse_datetime(date_str)\<close>, the same function in \<^verbatim>\<open>metrics.py\<close> and in
  \<^verbatim>\<open>trends.py\<close>.  \<open>k\<close> counts the calls of \<^verbatim>\<open>datetime.now()\<close> made so far; the
  new count is returned with the value.  A value that is neither a datetime nor a
  string has no \<^verbatim>\<open>replace\<close> method.
\<close>

fun parse_datetime :: "pylib \<Rightarrow> nat \<Rightarrow> pyval \<Rightarrow> error + (datetime \<times> nat)" where
  "parse_datetime L k (PDatetime d) = Inr (d, k)"
| "parse_datetime L k (PStr s) =
     (let date_str = replace_Z s
      in case fromisoformat L date_str of
           Some d \<Rightarrow> Inr (d, k)
         | None \<Rightarrow>
             (case strptime L (split_plus_head date_str) ''%Y-%m-%dT%H:%M:%S'' of
                Some w \<Rightarrow> Inr (naive w, k)
              | None \<Rightarrow>
                  (case strptime L (split_plus_head date_str) ''%Y-%m-%d'' of
                     Some w \<Rightarrow> Inr (naive w, k)
                   | None \<Rightarrow> Inr (naive (clock L k), Suc k))))"
| "parse_datetime L k v = Inl AttributeError"

section \<open>metrics.py: the four metric computers\<close>

text \<open>\<^verbatim>\<open>d.get(key)\<close>, with the default \<^verbatim>\<open>None\<close>.\<close>

definition dict_get :: "(string \<times> pyval) list \<Rightarrow> string \<Rightarrow> pyval" where
  "dict_get d key = (case map_of d key of None \<Rightarrow> PNone | Some v \<Rightarrow> v)"

text \<open>
  A \<^verbatim>\<open>for\<close> loop whose body, run on one element with the count \<open>k\<close> of clock
  readings so far, either raises, or appends a value to the result list or appends
  nothing (\<^verbatim>\<open>continue\<close>), and gives the new count.
\<close>

fun run_loop ::
  "(nat \<Rightarrow> 'a \<Rightarrow> error + ('b option \<times> nat)) \<Rightarrow> nat \<Rightarrow> 'a list \<Rightarrow> error + ('b list \<times> nat)" where
  "run_loop body k [] = Inr ([], k)"
| "run_loop body k (x # xs) =
     (case body k x of
        Inl e \<Rightarrow> Inl e
      | Inr (r, k') \<Rightarrow>
          (case run_loop body k' xs of
             Inl e \<Rightarrow> Inl e
           | Inr (rs, k'') \<Rightarrow> Inr ((case r of None \<Rightarrow> rs | Some y \<Rightarrow> y # rs), k'')))"

subsection \<open>Commit frequency\<close>

text \<open>
  The value of the variable \<^verbatim>\<open>date\<close> after the \<^verbatim>\<open>if isinstance(commit, dict)\<close>
  block.  \<^verbatim>\<open>author_info.get('date')\<close> raises \<^verbatim>\<open>AttributeError\<close> when the value
  under \<^verbatim>\<open>author\<close> is not a dict.
\<close>

definition commit_date :: "pyval \<Rightarrow> error + pyval" where
  "commit_date commit =
     (case commit of
        PDict d \<Rightarrow>
          (case map_of d ''commit'' of
             Some (PDict cd) \<Rightarrow>
               (case (case map_of cd ''author'' of None \<Rightarrow> PDict [] | Some a \<Rightarrow> a) of
                  PDict author_info \<Rightarrow> Inr (dict_get author_info ''date'')
                | _ \<Rightarrow> Inl AttributeError)
           | _ \<Rightarrow>
               (case map_of d ''date'' of
                  Some v \<Rightarrow> Inr v
                | None \<Rightarrow>
                    (case map_of d ''created_at'' of
                       Some v \<Rightarrow> Inr v
                     | None \<Rightarrow> Inr PNone)))
      | _ \<Rightarrow> Inr PNone)"

text \<open>The body of the loop that fills \<^verbatim>\<open>dates\<close>.\<close>

definition commit_body :: "pylib \<Rightarrow> nat \<Rightarrow> pyval \<Rightarrow> error + (datetime option \<times> nat)" where
  "commit_body L k commit =
     (case commit_date commit of
        Inl e \<Rightarrow> Inl e
      | Inr date \<Rightarrow>
          if truthy date
          then (case parse_datetime L k date of
                  Inl e \<Rightarrow> Inl e
                | Inr (d, k') \<Rightarrow> Inr (Some d, k'))
          else Inr (None, k))"

definition collect_dates :: "pylib \<Rightarrow> pyval list \<Rightarrow> error + (datetime list \<times> nat)" where
  "collect_dates L commits = run_loop (commit_body L) 0 commits"

record commit_frequency_result =
  cf_raw :: real
  cf_score :: real
  cf_total_commits :: nat
  cf_time_span_days :: "int option"

text \<open>
  The frequency before it is rounded, from the number of records and the sorted dates.
\<close>

definition span_days :: "int \<Rightarrow> int" where
  "span_days delta = (let time_span = timedelta_days delta in if time_span = 0 then 1 else time_span)"

definition compute_commit_frequency :: "pylib \<Rightarrow> pyval list \<Rightarrow> error + commit_frequency_result" where
  "compute_commit_frequency L commits =
     (if commits = []
      then Inr \<lparr>cf_raw = 0, cf_score = 0, cf_total_commits = 0, cf_time_span_days = None\<rparr>
      else
        case collect_dates L commits of
          Inl e \<Rightarrow> Inl e
        | Inr (dates, k) \<Rightarrow>
            if length dates < 2
            then Inr \<lparr>cf_raw = 1, cf_score = 25, cf_total_commits = length commits,
                      cf_time_span_days = None\<rparr>
            else
              (case sort_datetimes dates of
                 Inl e \<Rightarrow> Inl e
               | Inr dates \<Rightarrow>
                   (case dt_sub (last dates) (hd dates) of
                      Inl e \<Rightarrow> Inl e
                    | Inr delta \<Rightarrow>
                        let time_span = span_days delta;
                            frequency = real (length commits) / of_int time_span;
                            score = normalize_score frequency 0 5 False
                        in Inr \<lparr>cf_raw = py_round frequency 4, cf_score = score,
                                 cf_total_commits = length commits,
                                 cf_time_span_days = Some time_span\<rparr>)))"

subsection \<open>Issue resolution\<close>

text \<open>
  \<^verbatim>\<open>issue.get('state', '').lower()\<close>: only a string has the method \<^verbatim>\<open>lower\<close>.
\<close>

definition get_state :: "(string \<times> pyval) list \<Rightarrow> error + string" where
  "get_state d =
     (case map_of d ''state'' of
        None \<Rightarrow> Inr (py_lower [])
      | Some (PStr s) \<Rightarrow> Inr (py_lower s)
      | Some _ \<Rightarrow> Inl AttributeError)"

text \<open>
  The body of the loop over the issues, the same in \<^verbatim>\<open>compute_issue_resolution\<close>
  and \<^verbatim>\<open>compute_issue_trend\<close>: for a closed issue with both timestamps it yields
  the parsed closing time and the timedelta \<^verbatim>\<open>closed - created\<close>.
\<close>

definition issue_body :: "pylib \<Rightarrow> nat \<Rightarrow> pyval \<Rightarrow> error + ((datetime \<times> int) option \<times> nat)" where
  "issue_body L k issue =
     (case issue of
        PDict d \<Rightarrow>
          (case get_state d of
             Inl e \<Rightarrow> Inl e
           | Inr state \<Rightarrow>
               if state \<noteq> ''closed'' then Inr (None, k)
               else
                 let created_at = dict_get d ''created_at'';
                     closed_at = dict_get d ''closed_at''
                 in if truthy created_at \<and> truthy closed_at
                    then
                      (case parse_datetime L k created_at of
                         Inl e \<Rightarrow> Inl e
                       | Inr (created_dt, k1) \<Rightarrow>
                           (case parse_datetime L k1 closed_at of
                              Inl e \<Rightarrow> Inl e
                            | Inr (closed_dt, k2) \<Rightarrow>
                                (case dt_sub closed_dt created_dt of
                                   Inl e \<Rightarrow> Inl e
                                 | Inr delta \<Rightarrow> Inr (Some (closed_dt, delta), k2))))
                    else Inr (None, k))
      | _ \<Rightarrow> Inr (None, k))"

definition collect_resolved :: "pylib \<Rightarrow> pyval list \<Rightarrow> error + ((datetime \<times> int) list \<times> nat)" where
  "collect_resolved L issues = run_loop (issue_body L) 0 issues"

text \<open>\<^verbatim>\<open>max(0, (closed - created).total_seconds() / (24 * 3600))\<close>.\<close>

definition resolution_days :: "int \<Rightarrow> real" where
  "resolution_days delta = max 0 (total_seconds delta / (24 * 3600))"

record issue_resolution_result =
  ir_raw :: real
  ir_score :: real
  ir_resolved_count :: nat
  ir_total_issues :: nat

definition compute_issue_resolution :: "pylib \<Rightarrow> pyval list \<Rightarrow> error + issue_resolution_result" where
  "compute_issue_resolution L issues =
     (if issues = []
      then Inr \<lparr>ir_raw = 0, ir_score = 50, ir_resolved_count = 0, ir_total_issues = 0\<rparr>
      else
        case collect_resolved L issues of
          Inl e \<Rightarrow> Inl e
        | Inr (resolved, k) \<Rightarrow>
            let resolution_times = map (\<lambda>(closed_dt, delta). resolution_days delta) resolved
            in if resolution_times = []
               then Inr \<lparr>ir_raw = 0, ir_score = 50, ir_resolved_count = 0,
                         ir_total_issues = length issues\<rparr>
               else
                 let avg_resolution = sum_list resolution_times / real (length resolution_times);
                     score = normalize_score avg_resolution 0 30 True
                 in Inr \<lparr>ir_raw = py_round avg_resolution 2, ir_score = score,
                          ir_resolved_count = length resolution_times,
                          ir_total_issues = length issues\<rparr>)"

subsection \<open>Pull-request rejection\<close>

text \<open>
  The loop over the pull requests; its state is
  \<^verbatim>\<open>(merged_count, rejected_count, open_count)\<close>.
\<close>

definition pr_merged_flag :: "(string \<times> pyval) list \<Rightarrow> bool" where
  "pr_merged_flag d =
     (truthy (case map_of d ''merged'' of None \<Rightarrow> PBool False | Some v \<Rightarrow> v)
      \<or> dict_get d ''merged_at'' \<noteq> PNone)"

fun pr_loop :: "pyval list \<Rightarrow> nat \<times> nat \<times> nat \<Rightarrow> error + (nat \<times> nat \<times> nat)" where
  "pr_loop [] acc = Inr acc"
| "pr_loop (PDict d # rest) (merged_count, rejected_count, open_count) =
     (case get_state d of
        Inl e \<Rightarrow> Inl e
      | Inr state \<Rightarrow>
          if state = ''open'' then pr_loop rest (merged_count, rejected_count, open_count + 1)
          else if pr_merged_flag d then pr_loop rest (merged_count + 1, rejected_count, open_count)
          else if state = ''closed'' then pr_loop rest (merged_count, rejected_count + 1, open_count)
          else pr_loop rest (merged_count, rejected_count, open_count))"
| "pr_loop (pr # rest) acc = pr_loop rest acc"

record pr_rejection_result =
  pr_raw :: real
  pr_score :: real
  pr_rejected :: nat
  pr_merged :: nat
  pr_open :: "nat option"
  pr_total :: nat

definition compute_pr_rejection :: "pyval list \<Rightarrow> error + pr_rejection_result" where
  "compute_pr_rejection prs =
     (if prs = []
      then Inr \<lparr>pr_raw = 0, pr_score = 50, pr_rejected = 0, pr_merged = 0, pr_open = None,
                pr_total = 0\<rparr>
      else
        case pr_loop prs (0, 0, 0) of
          Inl e \<Rightarrow> Inl e
        | Inr (merged_count, rejected_count, open_count) \<Rightarrow>
            let total_closed = merged_count + rejected_count
            in if total_closed = 0
               then Inr \<lparr>pr_raw = 0, pr_score = 50, pr_rejected = 0, pr_merged = 0,
                         pr_open = Some open_count, pr_total = length prs\<rparr>
               else
                 let rejection_rate = real rejected_count / real total_closed;
                     score = normalize_score rejection_rate 0 0.5 True
                 in Inr \<lparr>pr_raw = py_round rejection_rate 4, pr_score = score,
                          pr_rejected = rejected_count, pr_merged = merged_count,
                          pr_open = Some open_count, pr_total = length prs\<rparr>)"

subsection \<open>Test ratio\<close>

text \<open>
  The regular expressions of \<^verbatim>\<open>test_patterns\<close>, compiled with
  \<^verbatim>\<open>re.IGNORECASE\<close>: a literal character and a character class match without
  regard to case, \<open>Dot\<close> is \<^verbatim>\<open>.\<close> (any character but a line feed) and
  \<open>Dollar\<close> is \<^verbatim>\<open>$\<close> (the end of the string, or the position before a line feed
  that ends the string).
\<close>

datatype rx =
    Never
  | Eps
  | Lit char
  | Dot
  | OneOf "char list"
  | Dollar
  | Seq rx rx
  | Alt rx rx
  | Star rx

definition line_feed :: char where
  "line_feed = CHR 0x0A"

text \<open>Whether \<^verbatim>\<open>$\<close> matches before the rest \<open>cs\<close> of the string.\<close>

definition at_dollar :: "string \<Rightarrow> bool" where
  "at_dollar cs = (cs = [] \<or> cs = [line_feed])"

text \<open>
  Matching by derivatives.  \<open>nullable e r\<close>: \<open>r\<close> matches the empty word at a
  position where \<^verbatim>\<open>$\<close> holds iff \<open>e\<close>.  \<open>deriv e c r\<close>: what is left of \<open>r\<close> after
  the character \<open>c\<close> read at such a position.
\<close>

fun nullable :: "bool \<Rightarrow> rx \<Rightarrow> bool" where
  "nullable e Never = False"
| "nullable e Eps = True"
| "nullable e (Lit c) = False"
| "nullable e Dot = False"
| "nullable e (OneOf cs) = False"
| "nullable e Dollar = e"
| "nullable e (Seq r s) = (nullable e r \<and> nullable e s)"
| "nullable e (Alt r s) = (nullable e r \<or> nullable e s)"
| "nullable e (Star r) = True"

definition seq :: "rx \<Rightarrow> rx \<Rightarrow> rx" where
  "seq r s = (case r of Never \<Rightarrow> Never | Eps \<Rightarrow> s | _ \<Rightarrow> Seq r s)"

definition alt :: "rx \<Rightarrow> rx \<Rightarrow> rx" where
  "alt r s = (case r of Never \<Rightarrow> s | _ \<Rightarrow> (case s of Never \<Rightarrow> r | _ \<Rightarrow> Alt r s))"

fun deriv :: "bool \<Rightarrow> char \<Rightarrow> rx \<Rightarrow> rx" where
  "deriv e c Never = Never"
| "deriv e c Eps = Never"
| "deriv e c (Lit a) = (if lower_char c = lower_char a then Eps else Never)"
| "deriv e c Dot = (if c = line_feed then Never else Eps)"
| "deriv e c (OneOf cs) = (if lower_char c \<in> set (map lower_char cs) then Eps else Never)"
| "deriv e c Dollar = Never"
| "deriv e c (Seq r s) =
     alt (seq (deriv e c r) s) (if nullable e r then deriv e c s else Never)"
| "deriv e c (Alt r s) = alt (deriv e c r) (deriv e c s)"
| "deriv e c (Star r) = seq (deriv e c r) (Star r)"

text \<open>Some prefix of the string matches \<open>r\<close>.\<close>

fun prefix_match :: "rx \<Rightarrow> string \<Rightarrow> bool" where
  "prefix_match r [] = nullable True r"
| "prefix_match r (c # cs) =
     (nullable (at_dollar (c # cs)) r \<or> prefix_match (deriv (at_dollar (c # cs)) c r) cs)"

text \<open>\<^verbatim>\<open>regex.search(s)\<close> finds a match: \<open>r\<close> matches at some position of \<open>s\<close>.\<close>

fun search :: "rx \<Rightarrow> string \<Rightarrow> bool" where
  "search r [] = prefix_match r []"
| "search r (c # cs) = (prefix_match r (c # cs) \<or> search r cs)"

text \<open>A literal string, and the list \<^verbatim>\<open>test_patterns\<close> in the order of the source.\<close>

definition lits :: "string \<Rightarrow> rx" where
  "lits s = foldr (\<lambda>c r. Seq (Lit c) r) s Eps"

definition opt :: "rx \<Rightarrow> rx" where
  "opt r = Alt r Eps"

definition test_patterns :: "rx list" where
  "test_patterns =
     [Seq (lits ''test_'') (Seq (Star Dot) (Seq (lits ''.py'') Dollar)),
      Seq (Star Dot) (Seq (lits ''_test.py'') Dollar),
      Seq (Star Dot) (Seq (lits ''_spec.py'') Dollar),
      Seq (Star Dot) (Seq (lits ''.test.'') (Seq (OneOf ''jt'') (Seq (Lit CHR ''s'')
        (Seq (opt (Lit CHR ''x'')) Dollar)))),
      Seq (Star Dot) (Seq (lits ''.spec.'') (Seq (OneOf ''jt'') (Seq (Lit CHR ''s'')
        (Seq (opt (Lit CHR ''x'')) Dollar)))),
      Seq (lits ''test'') (Seq (opt (Lit CHR ''s'')) (Seq (Lit CHR ''/'') (Star Dot))),
      Seq (lits ''__tests__/'') (Star Dot),
      Seq (Star Dot) (Seq (lits ''Test.'') (Seq (Alt (lits ''java'') (lits ''kt'')) Dollar)),
      Seq (Star Dot) (Seq (lits ''_test.go'') Dollar),
      Seq (Star Dot) (Seq (lits ''_test.rb'') Dollar),
      Seq (Star Dot) (Seq (lits ''_spec.rb'') Dollar)]"

text \<open>\<^verbatim>\<open>'|'.join(f'({p})' for p in test_patterns)\<close>, compiled.\<close>

definition test_regex :: rx where
  "test_regex = foldr Alt test_patterns Never"

definition code_extensions :: "string list" where
  "code_extensions =
     [''.py'', ''.js'', ''.ts'', ''.jsx'', ''.tsx'', ''.java'', ''.kt'', ''.go'',
      ''.rb'', ''.rs'', ''.c'', ''.cpp'', ''.h'', ''.hpp'', ''.cs'', ''.php'',
      ''.swift'', ''.scala'', ''.clj'', ''.ex'', ''.exs'', ''.vue'', ''.svelte'']"

definition has_code_extension :: "string \<Rightarrow> bool" where
  "has_code_extension file_path = list_ex (\<lambda>ext. endswith (py_lower file_path) ext) code_extensions"

text \<open>
  The path of one entry: \<^verbatim>\<open>file_entry.get('path', file_entry.get('name', ''))\<close> for
  a dict, \<^verbatim>\<open>str(file_entry)\<close> otherwise.
\<close>

definition file_path_of :: "pylib \<Rightarrow> pyval \<Rightarrow> pyval" where
  "file_path_of L file_entry =
     (case file_entry of
        PDict d \<Rightarrow>
          (case map_of d ''path'' of
             Some v \<Rightarrow> v
           | None \<Rightarrow> (case map_of d ''name'' of Some v \<Rightarrow> v | None \<Rightarrow> PStr []))
      | PStr s \<Rightarrow> PStr s
      | v \<Rightarrow> PStr (str_of L v))"

text \<open>
  The loop over the files; its state is \<^verbatim>\<open>(test_file_count, total_file_count)\<close>.
  \<^verbatim>\<open>file_path.lower()\<close> raises \<^verbatim>\<open>AttributeError\<close> on a path that is no string.
\<close>

fun file_loop :: "pylib \<Rightarrow> pyval list \<Rightarrow> nat \<times> nat \<Rightarrow> error + (nat \<times> nat)" where
  "file_loop L [] acc = Inr acc"
| "file_loop L (file_entry # rest) (test_file_count, total_file_count) =
     (let file_path = file_path_of L file_entry
      in if \<not> truthy file_path then file_loop L rest (test_file_count, total_file_count)
         else
           (case file_path of
              PStr p \<Rightarrow>
                if has_code_extension p
                then file_loop L rest
                       (if search test_regex p then test_file_count + 1 else test_file_count,
                        total_file_count + 1)
                else file_loop L rest (test_file_count, total_file_count)
            | _ \<Rightarrow> Inl AttributeError))"

record test_ratio_result =
  tr_raw :: real
  tr_score :: real
  tr_test_files :: nat
  tr_total_files :: nat

definition compute_test_ratio :: "pylib \<Rightarrow> pyval list \<Rightarrow> error + test_ratio_result" where
  "compute_test_ratio L files =
     (if files = []
      then Inr \<lparr>tr_raw = 0, tr_score = 0, tr_test_files = 0, tr_total_files = 0\<rparr>
      else
        case file_loop L files (0, 0) of
          Inl e \<Rightarrow> Inl e
        | Inr (test_file_count, total_file_count) \<Rightarrow>
            if total_file_count = 0
            then Inr \<lparr>tr_raw = 0, tr_score = 0, tr_test_files = 0, tr_total_files = 0\<rparr>
            else
              let test_ratio = real test_file_count / real total_file_count;
                  score = normalize_score test_ratio 0 0.3 False
              in Inr \<lparr>tr_raw = py_round test_ratio 4, tr_score = score,
                       tr_test_files = test_file_count, tr_total_files = total_file_count\<rparr>)"

section \<open>trends.py: the trend engine\<close>

text \<open>
  \<^verbatim>\<open>_calculate_moving_average(values, window)\<close>.  The first loop is the cumulative
  average (state \<^verbatim>\<open>cumsum\<close> and the index \<^verbatim>\<open>i\<close>), the second slides the window
  over the indices \<^verbatim>\<open>range(window, len(values))\<close>.
\<close>

fun cumulative_average :: "real \<Rightarrow> nat \<Rightarrow> real list \<Rightarrow> real list" where
  "cumulative_average cumsum i [] = []"
| "cumulative_average cumsum i (v # vs) =
     (cumsum + v) / real (i + 1) # cumulative_average (cumsum + v) (i + 1) vs"

fun slide_window :: "real list \<Rightarrow> nat \<Rightarrow> real \<Rightarrow> nat list \<Rightarrow> real list" where
  "slide_window values window window_sum [] = []"
| "slide_window values window window_sum (i # rest) =
     (let window_sum = window_sum - values ! (i - window) + values ! i
      in window_sum / real window # slide_window values window window_sum rest)"

definition calculate_moving_average :: "real list \<Rightarrow> int \<Rightarrow> real list" where
  "calculate_moving_average values window =
     (if values = [] \<or> window \<le> 0 then []
      else if int (length values) < window then cumulative_average 0 0 values
      else
        let w = nat window;
            window_sum = sum_list (take w values);
            result = window_sum / real w # slide_window values w window_sum [w ..< length values];
            prefix = cumulative_average 0 0 (take (min (w - 1) (length values)) values)
        in prefix @ result)"

text \<open>
  \<^verbatim>\<open>_calculate_linear_regression(x, y)\<close>.  \<open>regression_fit\<close> holds the local
  variables \<^verbatim>\<open>(slope, intercept, r_squared)\<close> before the \<^verbatim>\<open>return\<close> statement
  rounds them.
\<close>

definition regression_fit :: "real list \<Rightarrow> real list \<Rightarrow> real \<times> real \<times> real" where
  "regression_fit x y =
     (let n = length x;
          mean_x = sum_list x / real n;
          mean_y = sum_list y / real n;
          ss_xx = (\<Sum>xi \<leftarrow> x. (xi - mean_x)\<^sup>2);
          ss_yy = (\<Sum>yi \<leftarrow> y. (yi - mean_y)\<^sup>2);
          ss_xy = (\<Sum>(xi, yi) \<leftarrow> zip x y. (xi - mean_x) * (yi - mean_y));
          slope = (if ss_xx = 0 then 0 else ss_xy / ss_xx);
          intercept = (if ss_xx = 0 then mean_y else mean_y - slope * mean_x);
          r_squared =
            (if ss_yy = 0 then (if ss_xy = 0 then 1 else 0)
             else if ss_xx > 0 then ss_xy\<^sup>2 / (ss_xx * ss_yy) else 0)
      in (slope, intercept, r_squared))"

record regression =
  slope :: real
  intercept :: real
  r_squared :: real

definition calculate_linear_regression :: "real list \<Rightarrow> real list \<Rightarrow> regression" where
  "calculate_linear_regression x y =
     (if length x < 2 then \<lparr>slope = 0, intercept = 0, r_squared = 0\<rparr>
      else
        case regression_fit x y of
          (slope_v, intercept_v, r_squared_v) \<Rightarrow>
            \<lparr>slope = py_round slope_v 6, intercept = py_round intercept_v 4,
             r_squared = py_round r_squared_v 4\<rparr>)"

text \<open>
  The direction and strength labels.  The source returns the Turkish words
  \<^verbatim>\<open>artan\<close>, \<^verbatim>\<open>azalan\<close>, \<^verbatim>\<open>sabit\<close> (rising, falling, flat), for the issue trend
  \<^verbatim>\<open>iyilesiyor\<close>, \<^verbatim>\<open>kotulesiyor\<close>, \<^verbatim>\<open>sabit\<close> (improving, worsening, flat), and
  \<^verbatim>\<open>guclu\<close>, \<^verbatim>\<open>orta\<close>, \<^verbatim>\<open>zayif\<close>, \<^verbatim>\<open>belirsiz\<close> (strong, moderate, weak,
  inconclusive).
\<close>

datatype direction = Artan | Azalan | Sabit | Iyilesiyor | Kotulesiyor

datatype strength = Guclu | Orta | Zayif | Belirsiz

definition get_trend_direction :: "real \<Rightarrow> real \<Rightarrow> direction" where
  "get_trend_direction slope_v threshold =
     (if slope_v > threshold then Artan else if slope_v < - threshold then Azalan else Sabit)"

definition get_trend_strength :: "real \<Rightarrow> strength" where
  "get_trend_strength r_squared_v =
     (if r_squared_v \<ge> 0.7 then Guclu
      else if r_squared_v \<ge> 0.4 then Orta
      else if r_squared_v \<ge> 0.2 then Zayif
      else Belirsiz)"

subsection \<open>Commit trend\<close>

text \<open>
  The summary text is one of two fixed sentences or an f-string; the f-string is
  kept as the tuple of the values it prints.  A calendar day, which the source
  prints with \<^verbatim>\<open>strftime("%Y-%m-%d")\<close>, is kept as its day number.
\<close>

datatype summary =
    NoData
  | NotEnoughData
  | CommitSummary real strength direction real real
  | IssueSummary real strength direction real real

datatype ma_series = MaPlain "real list" | MaDated "(int \<times> real option) list"

record commit_trend_result =
  ct_time_series :: "(int \<times> nat) list"
  ct_moving_average :: ma_series
  ct_daily_values :: "nat list option"
  ct_ma7_values :: "real list option"
  ct_regression :: regression
  ct_trend_direction :: direction
  ct_trend_strength :: strength
  ct_average_daily_commits :: "real option"
  ct_total_days :: "nat option"
  ct_summary :: summary

text \<open>
  \<^verbatim>\<open>daily_counts\<close>, a \<^verbatim>\<open>defaultdict(int)\<close> keyed by the day, filled by the loop
  over the sorted dates; \<open>day_count\<close> reads it with the default 0, as
  \<^verbatim>\<open>daily_counts[day_key]\<close> and \<^verbatim>\<open>daily_counts.get(day_key, 0)\<close> do.
\<close>

definition day_count :: "(int \<rightharpoonup> nat) \<Rightarrow> int \<Rightarrow> nat" where
  "day_count daily_counts day = (case daily_counts day of None \<Rightarrow> 0 | Some c \<Rightarrow> c)"

fun count_days :: "datetime list \<Rightarrow> (int \<rightharpoonup> nat) \<Rightarrow> (int \<rightharpoonup> nat)" where
  "count_days [] daily_counts = daily_counts"
| "count_days (d # ds) daily_counts =
     count_days ds (daily_counts(date_of d \<mapsto> day_count daily_counts (date_of d) + 1))"

text \<open>
  The \<^verbatim>\<open>while current_date <= end_date\<close> loop that builds \<^verbatim>\<open>time_series\<close>.
\<close>

function series_loop :: "(int \<rightharpoonup> nat) \<Rightarrow> int \<Rightarrow> int \<Rightarrow> (int \<times> nat) list" where
  "series_loop daily_counts current_date end_date =
     (if current_date \<le> end_date
      then (current_date, day_count daily_counts current_date)
             # series_loop daily_counts (current_date + 1) end_date
      else [])"
  by pat_completeness auto
termination
  by (relation "measure (\<lambda>(m, c, e). nat (e + 1 - c))") auto

declare series_loop.simps [simp del]

text \<open>
  The pairing of the series with the moving average:
  \<^verbatim>\<open>round(ma[i], 2) if i < len(ma) else None\<close>.
\<close>

definition pair_ma :: "int list \<Rightarrow> real list \<Rightarrow> (int \<times> real option) list" where
  "pair_ma days ma =
     map (\<lambda>(i, day). (day, if i < length ma then Some (py_round (ma ! i) 2) else None))
       (enumerate 0 days)"

definition regression_zero :: regression where
  "regression_zero = \<lparr>slope = 0, intercept = 0, r_squared = 0\<rparr>"

definition compute_commit_trend :: "pylib \<Rightarrow> pyval list \<Rightarrow> error + commit_trend_result" where
  "compute_commit_trend L commits =
     (if commits = []
      then Inr \<lparr>ct_time_series = [], ct_moving_average = MaPlain [], ct_daily_values = None,
                ct_ma7_values = None, ct_regression = regression_zero,
                ct_trend_direction = Sabit, ct_trend_strength = Belirsiz,
                ct_average_daily_commits = None, ct_total_days = None, ct_summary = NoData\<rparr>
      else
        case collect_dates L commits of
          Inl e \<Rightarrow> Inl e
        | Inr (dates, k) \<Rightarrow>
            if length dates < 2
            then Inr \<lparr>ct_time_series = (if dates \<noteq> [] then [(date_of (hd dates), 1)] else []),
                      ct_moving_average = MaPlain (if dates \<noteq> [] then [1] else []),
                      ct_daily_values = None, ct_ma7_values = None,
                      ct_regression = regression_zero,
                      ct_trend_direction = Sabit, ct_trend_strength = Belirsiz,
                      ct_average_daily_commits = None, ct_total_days = None,
                      ct_summary = NotEnoughData\<rparr>
            else
              (case sort_datetimes dates of
                 Inl e \<Rightarrow> Inl e
               | Inr dates \<Rightarrow>
                   let daily_counts = count_days dates Map.empty;
                       start_date = date_of (py_min_from (hd dates) (tl dates));
                       end_date = date_of (py_max_from (hd dates) (tl dates));
                       time_series = series_loop daily_counts start_date end_date;
                       values = map snd time_series;
                       ma7 = calculate_moving_average (map real values) 7;
                       x = map real [0 ..< length values];
                       regression = calculate_linear_regression x (map real values);
                       trend_direction = get_trend_direction (slope regression) 0.01;
                       trend_strength = get_trend_strength (r_squared regression);
                       avg_commits =
                         (if values \<noteq> [] then real (sum_list values) / real (length values) else 0)
                   in Inr \<lparr>ct_time_series = time_series,
                            ct_moving_average = MaDated (pair_ma (map fst time_series) ma7),
                            ct_daily_values = Some values,
                            ct_ma7_values = Some (map (\<lambda>v. py_round v 2) ma7),
                            ct_regression = regression,
                            ct_trend_direction = trend_direction,
                            ct_trend_strength = trend_strength,
                            ct_average_daily_commits = Some (py_round avg_commits 2),
                            ct_total_days = Some (length time_series),
                            ct_summary =
                              CommitSummary avg_commits trend_strength trend_direction
                                (slope regression) (r_squared regression)\<rparr>))"

subsection \<open>Issue trend\<close>











section \<open>Least squares, for reference\<close>


definition mean :: "real list \<Rightarrow> real" where
  "mean x = sum_list x / real (length x)"

definition ss_xx :: "real list \<Rightarrow> real" where
  "ss_xx x = (\<Sum>xi \<leftarrow> x. (xi - mean x)\<^sup>2)"

definition ss_xy :: "real list \<Rightarrow> real list \<Rightarrow> real" where
  "ss_xy x y = (\<Sum>(xi, yi) \<leftarrow> zip x y. (xi - mean x) * (yi - sum_list y / real (length x)))"

section \<open>A reading of the library for concrete inputs\<close>

text \<open>
  The calendar arithmetic of the \<^verbatim>\<open>datetime\<close> module
  (\<^verbatim>\<open>date.toordinal\<close>: 0001-01-01 is day 1).
\<close>

definition is_leap :: "int \<Rightarrow> bool" where
  "is_leap y = (y mod 4 = 0 \<and> (y mod 100 \<noteq> 0 \<or> y mod 400 = 0))"

definition days_in_month :: "int \<Rightarrow> int \<Rightarrow> int" where
  "days_in_month y m =
     (if m = 2 then (if is_leap y then 29 else 28)
      else if m = 4 \<or> m = 6 \<or> m = 9 \<or> m = 11 then 30 else 31)"

definition days_before_year :: "int \<Rightarrow> int" where
  "days_before_year y = (y - 1) * 365 + (y - 1) div 4 - (y - 1) div 100 + (y - 1) div 400"

definition days_before_month :: "int \<Rightarrow> int \<Rightarrow> int" where
  "days_before_month y m = sum_list (map (days_in_month y) [1 .. m - 1])"

definition ymd_to_ordinal :: "int \<Rightarrow> int \<Rightarrow> int \<Rightarrow> int" where
  "ymd_to_ordinal y m d = days_before_year y + days_before_month y m + d"

text \<open>A run of decimal digits as a number; \<open>None\<close> if a character is no digit.\<close>

definition digit_of :: "char \<Rightarrow> int option" where
  "digit_of c =
     (if (48 :: nat) \<le> of_char c \<and> of_char c \<le> (57 :: nat)
      then Some (int (of_char c) - 48) else None)"

fun digits_from :: "int \<Rightarrow> string \<Rightarrow> int option" where
  "digits_from acc [] = Some acc"
| "digits_from acc (c # cs) =
     (case digit_of c of None \<Rightarrow> None | Some d \<Rightarrow> digits_from (10 * acc + d) cs)"

definition number :: "string \<Rightarrow> int option" where
  "number s = (if s = [] then None else digits_from 0 s)"

text \<open>
  \<open>YYYY-MM-DD\<close> as a day number, and \<open>HH:MM:SS\<close> as the microseconds since midnight;
  \<open>None\<close> for a text of another shape or a field out of range.
\<close>

definition parse_date :: "string \<Rightarrow> int option" where
  "parse_date s =
     (if length s = 10 \<and> s ! 4 = CHR ''-'' \<and> s ! 7 = CHR ''-''
      then
        (case (number (take 4 s), number (take 2 (drop 5 s)), number (drop 8 s)) of
           (Some y, Some m, Some d) \<Rightarrow>
             if 1 \<le> y \<and> 1 \<le> m \<and> m \<le> 12 \<and> 1 \<le> d \<and> d \<le> days_in_month y m
             then Some (ymd_to_ordinal y m d) else None
         | _ \<Rightarrow> None)
      else None)"

definition parse_time :: "string \<Rightarrow> int option" where
  "parse_time s =
     (if length s = 8 \<and> s ! 2 = CHR '':'' \<and> s ! 5 = CHR '':''
      then
        (case (number (take 2 s), number (take 2 (drop 3 s)), number (drop 6 s)) of
           (Some h, Some m, Some sec) \<Rightarrow>
             if h < 24 \<and> m < 60 \<and> sec < 60
             then Some ((h * 3600 + m * 60 + sec) * 1000000) else None
         | _ \<Rightarrow> None)
      else None)"

text \<open>A UTC offset \<open>+HH:MM\<close> or \<open>-HH:MM\<close>, in microseconds.\<close>

definition parse_offset :: "string \<Rightarrow> int option" where
  "parse_offset s =
     (if length s = 6 \<and> (s ! 0 = CHR ''+'' \<or> s ! 0 = CHR ''-'') \<and> s ! 3 = CHR '':''
      then
        (case (number (take 2 (drop 1 s)), number (drop 4 s)) of
           (Some h, Some m) \<Rightarrow>
             if h < 24 \<and> m < 60
             then Some ((if s ! 0 = CHR ''-'' then - 1 else 1) * (h * 3600 + m * 60) * 1000000)
             else None
         | _ \<Rightarrow> None)
      else None)"

text \<open>
  \<^verbatim>\<open>datetime.fromisoformat\<close> on the layouts \<open>YYYY-MM-DD\<close>,
  \<open>YYYY-MM-DDTHH:MM:SS\<close> and \<open>YYYY-MM-DDTHH:MM:SS\<plusminus>HH:MM\<close> with zero-padded fields,
  and \<^verbatim>\<open>datetime.strptime\<close> on the two formats of the source with zero-padded
  fields.  Every other text is answered with \<open>None\<close>; the texts this development
  evaluates them on are of the three layouts or are no timestamp in any notation.
\<close>

definition iso_fromisoformat :: "string \<Rightarrow> datetime option" where
  "iso_fromisoformat s =
     (if length s = 10 then map_option (\<lambda>day. naive (day * us_per_day)) (parse_date s)
      else if (length s = 19 \<or> length s = 25) \<and> s ! 10 = CHR ''T''
      then
        (case (parse_date (take 10 s), parse_time (take 8 (drop 11 s))) of
           (Some day, Some t) \<Rightarrow>
             if length s = 19 then Some (naive (day * us_per_day + t))
             else map_option (\<lambda>off. \<lparr>wall = day * us_per_day + t, utcoffset = Some off\<rparr>)
                    (parse_offset (drop 19 s))
         | _ \<Rightarrow> None)
      else None)"

definition iso_strptime :: "string \<Rightarrow> string \<Rightarrow> int option" where
  "iso_strptime s fmt =
     (if fmt = ''%Y-%m-%d'' then map_option (\<lambda>day. day * us_per_day) (parse_date s)
      else if fmt = ''%Y-%m-%dT%H:%M:%S'' \<and> length s = 19 \<and> s ! 10 = CHR ''T''
      then
        (case (parse_date (take 10 s), parse_time (drop 11 s)) of
           (Some day, Some t) \<Rightarrow> Some (day * us_per_day + t)
         | _ \<Rightarrow> None)
      else None)"

text \<open>
  The library with a clock that reads \<open>now\<close> (a wall-clock reading in microseconds)
  at every call.
\<close>

definition iso_lib :: "int \<Rightarrow> pylib" where
  "iso_lib now =
     \<lparr>fromisoformat = iso_fromisoformat, strptime = iso_strptime,
      clock = (\<lambda>k. now), str_of = (\<lambda>v. [])\<rparr>"

section \<open>The test-file patterns as the specification words them\<close>

text \<open>
  The specification describes the patterns as forms of the file name
  (\<open>test_*.py\<close>, \<open>*_test.py\<close>, \<open>*_spec.py\<close>, \<open>*.test.{js,ts,jsx,tsx}\<close>,
  \<open>*.spec.{js,ts,jsx,tsx}\<close>, \<open>*Test.{java,kt}\<close>, \<open>*_test.go\<close>, \<open>*_test.rb\<close>,
  \<open>*_spec.rb\<close>) and as a path segment \<open>tests/\<close>, \<open>test/\<close> or \<open>__tests__/\<close>, all
  without regard to case.  \<open>spec_is_test_path\<close> follows these words: the path is
  cut at the slashes, the last piece is the file name, the others are the segments.
\<close>

definition path_segments :: "string \<Rightarrow> string list" where
  "path_segments p =
     foldr (\<lambda>c segs. if c = CHR ''/'' then [] # segs else (c # hd segs) # tl segs) p [[]]"

definition startswith :: "string \<Rightarrow> string \<Rightarrow> bool" where
  "startswith s pre = (take (length pre) s = pre)"

definition spec_test_filename :: "string \<Rightarrow> bool" where
  "spec_test_filename name =
     (let n = py_lower name
      in (startswith n ''test_'' \<and> endswith n ''.py'') \<or>
         list_ex (endswith n)
           [''_test.py'', ''_spec.py'',
            ''.test.js'', ''.test.ts'', ''.test.jsx'', ''.test.tsx'',
            ''.spec.js'', ''.spec.ts'', ''.spec.jsx'', ''.spec.tsx'',
            ''test.java'', ''test.kt'', ''_test.go'', ''_test.rb'', ''_spec.rb''])"

definition spec_is_test_path :: "string \<Rightarrow> bool" where
  "spec_is_test_path p =
     (let segs = path_segments p
      in list_ex (\<lambda>seg. py_lower seg = ''tests'' \<or> py_lower seg = ''test''
                    \<or> py_lower seg = ''__tests__'') (butlast segs)
         \<or> spec_test_filename (last segs))"

section \<open>Notions for the order and clock independence\<close>




section \<open>Properties of the normalizer\<close>

lemma round_half_even_floor: "\<lfloor>x\<rfloor> \<le> round_half_even x" "round_half_even x \<le> \<lfloor>x\<rfloor> + 1"
  by (simp_all add: round_half_even_def Let_def)

lemma round_half_even_lower: "of_int a \<le> x \<Longrightarrow> a \<le> round_half_even x"
  using round_half_even_floor(1) [of x] by (simp add: le_floor_iff [symmetric])

lemma round_half_even_upper:
  assumes h: "x \<le> of_int b"
  shows "round_half_even x \<le> b"
proof -
  have fl: "\<lfloor>x\<rfloor> \<le> b" using h by (simp add: floor_le_iff)
  show ?thesis
  proof (cases "\<lfloor>x\<rfloor> = b")
    case True
    then have "x - of_int \<lfloor>x\<rfloor> \<le> 0" using h by simp
    then have "x - of_int \<lfloor>x\<rfloor> < 1 / 2" by simp
    then show ?thesis using True by (simp add: round_half_even_def Let_def)
  next
    case False
    then have "\<lfloor>x\<rfloor> + 1 \<le> b" using fl by simp
    then show ?thesis using round_half_even_floor(2) [of x] by simp
  qed
qed

lemma round_half_even_of_int [simp]: "round_half_even (of_int n) = n"
  by (simp add: round_half_even_def)

lemma round_half_even_mono:
  assumes "x \<le> y"
  shows "round_half_even x \<le> round_half_even y"
proof (cases "\<lfloor>x\<rfloor> = \<lfloor>y\<rfloor>")
  case True
  have "x - of_int \<lfloor>x\<rfloor> \<le> y - of_int \<lfloor>y\<rfloor>" using assms True by simp
  then show ?thesis using True by (simp add: round_half_even_def Let_def)
next
  case False
  have "\<lfloor>x\<rfloor> \<le> \<lfloor>y\<rfloor>" using assms by (rule floor_mono)
  then have lt: "\<lfloor>x\<rfloor> + 1 \<le> \<lfloor>y\<rfloor>" using False by simp
  show ?thesis
    using lt round_half_even_floor(2) [of x] round_half_even_floor(1) [of y] by simp
qed

lemma py_round_mono: "x \<le> y \<Longrightarrow> py_round x nd \<le> py_round y nd"
  unfolding py_round_def
  by (intro divide_right_mono) (simp_all add: round_half_even_mono mult_right_mono)

lemma py_round_range:
  assumes "of_int a \<le> x" "x \<le> of_int b"
  shows "of_int a \<le> py_round x nd \<and> py_round x nd \<le> of_int b"
proof -
  have p: "(0::real) < 10 ^ nd" by simp
  have "of_int (a * 10 ^ nd) \<le> x * 10 ^ nd"
    using assms(1) by (simp add: mult_right_mono)
  then have lo: "a * 10 ^ nd \<le> round_half_even (x * 10 ^ nd)"
    by (rule round_half_even_lower)
  have "x * 10 ^ nd \<le> of_int (b * 10 ^ nd)"
    using assms(2) by (simp add: mult_right_mono)
  then have hi: "round_half_even (x * 10 ^ nd) \<le> b * 10 ^ nd"
    by (rule round_half_even_upper)
  have "(of_int (a * 10 ^ nd) :: real) \<le> of_int (round_half_even (x * 10 ^ nd))"
    using lo by (simp only: of_int_le_iff)
  then have lo': "of_int a * 10 ^ nd \<le> (of_int (round_half_even (x * 10 ^ nd)) :: real)"
    by simp
  have "(of_int (round_half_even (x * 10 ^ nd)) :: real) \<le> of_int (b * 10 ^ nd)"
    using hi by (simp only: of_int_le_iff)
  then have hi': "(of_int (round_half_even (x * 10 ^ nd)) :: real) \<le> of_int b * 10 ^ nd"
    by simp
  show ?thesis
    unfolding py_round_def using p lo' hi' by (simp add: pos_le_divide_eq pos_divide_le_eq)
qed

lemma py_round_of_int [simp]: "py_round (of_int n) nd = of_int n"
proof -
  have "of_int n * (10::real) ^ nd = of_int (n * 10 ^ nd)" by simp
  then show ?thesis unfolding py_round_def by (simp only: round_half_even_of_int) simp
qed

lemma normalize_score_range:
  "0 \<le> normalize_score x mn mx iv \<and> normalize_score x mn mx iv \<le> 100"
proof (cases "mx = mn")
  case True
  then show ?thesis by (simp add: normalize_score_def)
next
  case False
  define c where "c = max 0 (min 1 ((x - mn) / (mx - mn)))"
  define d where "d = (if iv then 1 - c else c)"
  have eq: "normalize_score x mn mx iv = py_round (d * 100) 2"
    using False unfolding normalize_score_def Let_def c_def d_def by (simp only: if_False)
  have "0 \<le> d" "d \<le> 1" by (auto simp: c_def d_def)
  then have "of_int 0 \<le> d * 100" "d * 100 \<le> of_int 100" by auto
  then have "of_int 0 \<le> py_round (d * 100) 2 \<and> py_round (d * 100) 2 \<le> of_int 100"
    by (rule py_round_range)
  then show ?thesis unfolding eq by simp
qed

lemma normalize_score_mono:
  assumes "mn < mx" "v \<le> w"
  shows "normalize_score v mn mx False \<le> normalize_score w mn mx False"
    and "normalize_score w mn mx True \<le> normalize_score v mn mx True"
proof -
  have "(v - mn) / (mx - mn) \<le> (w - mn) / (mx - mn)"
    using assms by (simp add: divide_right_mono)
  then have c: "max 0 (min 1 ((v - mn) / (mx - mn))) \<le> max 0 (min 1 ((w - mn) / (mx - mn)))"
    by auto
  have ne: "mx \<noteq> mn" using assms(1) by simp
  show "normalize_score v mn mx False \<le> normalize_score w mn mx False"
    unfolding normalize_score_def Let_def using ne c by (simp add: py_round_mono)
  show "normalize_score w mn mx True \<le> normalize_score v mn mx True"
    unfolding normalize_score_def Let_def using ne c by (simp add: py_round_mono)
qed

text \<open>
  C3 (as amended).  For \<open>min_val < max_val\<close> the normalizer is monotonic
  non-decreasing in the value when \<open>inverse\<close> is false and non-increasing when it is
  true; for all arguments its result lies in \<open>[0, 100]\<close>; and when the two bounds are
  equal the result is 50 whatever the value and the flag.
\<close>

theorem normalize_score_monotone_clamped_neutral:
  "(mn < mx \<and> v \<le> w \<longrightarrow>
      normalize_score v mn mx False \<le> normalize_score w mn mx False \<and>
      normalize_score w mn mx True \<le> normalize_score v mn mx True) \<and>
   0 \<le> normalize_score x lo hi iv \<and> normalize_score x lo hi iv \<le> 100 \<and>
   normalize_score x a a iv = 50"
  using normalize_score_mono [of mn mx v w] normalize_score_range [of x lo hi iv]
  by (simp add: normalize_score_def)

theorem normalize_score_monotone_clamped_neutral_witness:
  "(0::real) < 5 \<and> (1::real) \<le> 2 \<and>
   normalize_score 1 0 5 False \<le> normalize_score 2 0 5 False \<and>
   normalize_score 2 0 5 True \<le> normalize_score 1 0 5 True \<and>
   0 \<le> normalize_score 7 0 5 True \<and> normalize_score 7 0 5 True \<le> 100 \<and>
   normalize_score 7 3 3 True = 50"
  using normalize_score_monotone_clamped_neutral [of 0 5 1 2 7 0 5 True 3]
  by simp

text \<open>
  C3 as stated fails when \<open>min_val > max_val\<close>: with the range \<open>(5, 0)\<close> and
  \<open>inverse\<close> false, the value 0 scores 100 and the larger value 5 scores 0.
\<close>

theorem normalize_score_monotone_counterexample:
  "(5::real) \<noteq> 0 \<and> (0::real) \<le> 5 \<and>
   normalize_score 0 5 0 False = 100 \<and> normalize_score 5 5 0 False = 0 \<and>
   \<not> normalize_score 0 5 0 False \<le> normalize_score 5 5 0 False"
  by (simp add: normalize_score_def py_round_def round_half_even_def)

section \<open>Properties of the weighted score\<close>

lemma weighted_loop_sums:
  "weighted_loop weights n xs (a, b) =
     (a + (\<Sum>(m, s) \<leftarrow> xs. s * metric_weight weights n m),
      b + (\<Sum>(m, s) \<leftarrow> xs. metric_weight weights n m))"
  by (induction xs arbitrary: a b) (auto simp: Let_def)

lemma calculate_weighted_score_closed:
  "scores \<noteq> [] \<Longrightarrow>
   calculate_weighted_score scores weights_opt =
     (let ws = weighted_sum_of (weights_or_default weights_opt) scores;
          tw = total_weight_of (weights_or_default weights_opt) scores
      in if tw = 0 then 0 else ws / tw * (if tw \<le> 1 then tw else 1))"
  by (simp add: calculate_weighted_score_def weighted_loop_sums weighted_sum_of_def
      total_weight_of_def weights_or_default_def Let_def)

lemma calculate_weighted_score_default_example:
  "calculate_weighted_score
     [(''commit_frequency'', 80), (''issue_resolution'', 60),
      (''pr_rejection'', 40), (''test_ratio'', 20)] None = 50"
  by (simp add: calculate_weighted_score_def DEFAULT_WEIGHTS_def metric_weight_def)

text \<open>
  C4.  For a non-empty scores mapping, with \<open>ws\<close> the weighted sum of the scores and
  \<open>tw\<close> the total weight: the result is \<open>ws / tw\<close> multiplied by the clamp
  \<open>tw if tw \<le> 1 else 1\<close>; so it is \<open>ws / tw\<close> (the sum scaled down) exactly when
  the total weight exceeds 1, it is \<open>ws\<close> itself (not amplified by a division by a
  small total) otherwise, and in absolute value it never exceeds \<open>ws\<close>.  A total
  weight of zero returns 0.  With the default weights the scores 80, 60, 40, 20 give
  exactly 50.
\<close>

theorem calculate_weighted_score_clamped_average:
  assumes "scores \<noteq> []"
  shows "(total_weight_of (weights_or_default wo) scores = 0 \<longrightarrow>
            calculate_weighted_score scores wo = 0) \<and>
         (total_weight_of (weights_or_default wo) scores \<noteq> 0 \<longrightarrow>
            calculate_weighted_score scores wo =
              weighted_sum_of (weights_or_default wo) scores /
                total_weight_of (weights_or_default wo) scores *
                (if total_weight_of (weights_or_default wo) scores \<le> 1
                 then total_weight_of (weights_or_default wo) scores else 1)) \<and>
         (1 < total_weight_of (weights_or_default wo) scores \<longrightarrow>
            calculate_weighted_score scores wo =
              weighted_sum_of (weights_or_default wo) scores /
                total_weight_of (weights_or_default wo) scores) \<and>
         (total_weight_of (weights_or_default wo) scores \<le> 1 \<and>
          total_weight_of (weights_or_default wo) scores \<noteq> 0 \<longrightarrow>
            calculate_weighted_score scores wo = weighted_sum_of (weights_or_default wo) scores) \<and>
         \<bar>calculate_weighted_score scores wo\<bar> \<le> \<bar>weighted_sum_of (weights_or_default wo) scores\<bar> \<and>
         calculate_weighted_score
           [(''commit_frequency'', 80), (''issue_resolution'', 60),
            (''pr_rejection'', 40), (''test_ratio'', 20)] None = 50"
proof -
  define ws where "ws = weighted_sum_of (weights_or_default wo) scores"
  define tw where "tw = total_weight_of (weights_or_default wo) scores"
  have r: "calculate_weighted_score scores wo =
             (if tw = 0 then 0 else ws / tw * (if tw \<le> 1 then tw else 1))"
    using calculate_weighted_score_closed [OF assms, of wo] by (simp add: Let_def ws_def tw_def)
  have "1 < tw \<Longrightarrow> \<bar>ws / tw\<bar> \<le> \<bar>ws\<bar>"
  proof -
    assume "1 < tw"
    then have "\<bar>ws\<bar> / tw \<le> \<bar>ws\<bar> / 1"
      by (intro divide_left_mono) auto
    then show ?thesis using \<open>1 < tw\<close> by simp
  qed
  moreover have "tw \<noteq> 0 \<Longrightarrow> ws / tw * tw = ws"
    by simp
  ultimately have ab: "\<bar>calculate_weighted_score scores wo\<bar> \<le> \<bar>ws\<bar>"
    unfolding r by (cases "tw = 0"; cases "tw \<le> 1") (simp_all del: nonzero_divide_eq_eq)
  show ?thesis
    using r ab calculate_weighted_score_default_example
    unfolding ws_def [symmetric] tw_def [symmetric] by auto
qed

theorem calculate_weighted_score_clamped_average_witness:
  "[(''a'', 80), (''b'', 40 :: real)] \<noteq> [] \<and>
   total_weight_of (weights_or_default (Some [''a'' \<mapsto> 1.5, ''b'' \<mapsto> 0.5])) [(''a'', 80), (''b'', 40)] = 2 \<and>
   weighted_sum_of (weights_or_default (Some [''a'' \<mapsto> 1.5, ''b'' \<mapsto> 0.5])) [(''a'', 80), (''b'', 40)] = 140 \<and>
   calculate_weighted_score [(''a'', 80), (''b'', 40)] (Some [''a'' \<mapsto> 1.5, ''b'' \<mapsto> 0.5]) = 70"
  using calculate_weighted_score_clamped_average
    [of "[(''a'', 80), (''b'', 40)]" "Some [''a'' \<mapsto> 1.5, ''b'' \<mapsto> 0.5]"]
  by (simp add: total_weight_of_def weighted_sum_of_def weights_or_default_def metric_weight_def)

text \<open>
  C5.  A metric that is not a key of the weights mapping gets the equal share
  \<open>1 / len(scores)\<close>; a metric mapped to 0 contributes weight 0; and for the scores
  \<open>{a: 80, b: 40}\<close> the weights \<open>{a: 0.5, b: 0}\<close> and \<open>{a: 0.5}\<close> give different
  overall scores (40 and 60).
\<close>

theorem missing_weight_is_not_zero_weight:
  "(weights1 m1 = None \<longrightarrow> metric_weight weights1 n m1 = 1 / real n) \<and>
   (weights2 m2 = Some 0 \<longrightarrow> metric_weight weights2 n m2 = 0) \<and>
   calculate_weighted_score [(''a'', 80), (''b'', 40)] (Some [''a'' \<mapsto> 0.5, ''b'' \<mapsto> 0]) = 40 \<and>
   calculate_weighted_score [(''a'', 80), (''b'', 40)] (Some [''a'' \<mapsto> 0.5]) = 60 \<and>
   calculate_weighted_score [(''a'', 80), (''b'', 40)] (Some [''a'' \<mapsto> 0.5, ''b'' \<mapsto> 0]) \<noteq>
     calculate_weighted_score [(''a'', 80), (''b'', 40)] (Some [''a'' \<mapsto> 0.5])"
  by (simp add: metric_weight_def calculate_weighted_score_def)

theorem missing_weight_is_not_zero_weight_witness:
  "[''a'' \<mapsto> 0.5 :: real] ''b'' = None \<and>
   metric_weight [''a'' \<mapsto> 0.5] 2 ''b'' = 1 / 2 \<and>
   [''a'' \<mapsto> 0.5 :: real, ''b'' \<mapsto> 0] ''b'' = Some 0 \<and>
   metric_weight [''a'' \<mapsto> 0.5, ''b'' \<mapsto> 0] 2 ''b'' = 0"
  using missing_weight_is_not_zero_weight
    [of "[''a'' \<mapsto> 0.5]" "''b''" 2 "[''a'' \<mapsto> 0.5, ''b'' \<mapsto> 0]" "''b''"]
  by simp

section \<open>Properties of the metric computers\<close>

lemma commit_frequency_score_range:
  "compute_commit_frequency L commits = Inr r \<Longrightarrow> 0 \<le> cf_score r \<and> cf_score r \<le> 100"
  unfolding compute_commit_frequency_def Let_def
  using normalize_score_range
  by (auto split: if_splits sum.splits prod.splits)

lemma issue_resolution_score_range:
  "compute_issue_resolution L issues = Inr r \<Longrightarrow> 0 \<le> ir_score r \<and> ir_score r \<le> 100"
  unfolding compute_issue_resolution_def Let_def
  using normalize_score_range
  by (auto split: if_splits sum.splits prod.splits)

lemma pr_rejection_score_range:
  "compute_pr_rejection prs = Inr r \<Longrightarrow> 0 \<le> pr_score r \<and> pr_score r \<le> 100"
  unfolding compute_pr_rejection_def Let_def
  using normalize_score_range
  by (auto split: if_splits sum.splits prod.splits)

lemma test_ratio_score_range:
  "compute_test_ratio L files = Inr r \<Longrightarrow> 0 \<le> tr_score r \<and> tr_score r \<le> 100"
  unfolding compute_test_ratio_def Let_def
  using normalize_score_range
  by (auto split: if_splits sum.splits prod.splits)

lemma commit_frequency_example:
  "compute_commit_frequency (iso_lib 0)
     [PDict [(''date'', PStr ''2024-01-01'')], PDict [(''date'', PStr ''2024-01-05'')]] =
   Inr \<lparr>cf_raw = 1 / 2, cf_score = 10, cf_total_commits = 2, cf_time_span_days = Some 4\<rparr>"
  by code_simp

lemma issue_resolution_example:
  "compute_issue_resolution (iso_lib 0)
     [PDict [(''state'', PStr ''closed''), (''created_at'', PStr ''2024-01-01T00:00:00Z''),
             (''closed_at'', PStr ''2024-01-03T00:00:00Z'')]] =
   Inr \<lparr>ir_raw = 2, ir_score = 9333 / 100, ir_resolved_count = 1, ir_total_issues = 1\<rparr>"
  by code_simp

lemma pr_rejection_example:
  "compute_pr_rejection
     [PDict [(''state'', PStr ''closed''), (''merged_at'', PStr ''2024-01-02T10:00:00Z'')],
      PDict [(''state'', PStr ''closed''), (''merged_at'', PNone)]] =
   Inr \<lparr>pr_raw = 1 / 2, pr_score = 0, pr_rejected = 1, pr_merged = 1, pr_open = Some 0,
          pr_total = 2\<rparr>"
  by code_simp

lemma test_ratio_example:
  "compute_test_ratio (iso_lib 0) [PStr ''src/a.py'', PStr ''tests/test_a.py''] =
   Inr \<lparr>tr_raw = 1 / 2, tr_score = 100, tr_test_files = 1, tr_total_files = 2\<rparr>"
  by code_simp

text \<open>
  C2.  Whenever one of the four metric computers returns a result, the \<open>score\<close> field
  of the result lies in \<open>[0, 100]\<close>.
\<close>

theorem metric_scores_in_range:
  "(compute_commit_frequency L commits = Inr r1 \<longrightarrow> 0 \<le> cf_score r1 \<and> cf_score r1 \<le> 100) \<and>
   (compute_issue_resolution L issues = Inr r2 \<longrightarrow> 0 \<le> ir_score r2 \<and> ir_score r2 \<le> 100) \<and>
   (compute_pr_rejection prs = Inr r3 \<longrightarrow> 0 \<le> pr_score r3 \<and> pr_score r3 \<le> 100) \<and>
   (compute_test_ratio L files = Inr r4 \<longrightarrow> 0 \<le> tr_score r4 \<and> tr_score r4 \<le> 100)"
  using commit_frequency_score_range [of L commits r1]
    issue_resolution_score_range [of L issues r2]
    pr_rejection_score_range [of prs r3]
    test_ratio_score_range [of L files r4]
  by blast

theorem metric_scores_in_range_witness:
  "compute_commit_frequency (iso_lib 0)
     [PDict [(''date'', PStr ''2024-01-01'')], PDict [(''date'', PStr ''2024-01-05'')]] =
     Inr \<lparr>cf_raw = 1 / 2, cf_score = 10, cf_total_commits = 2, cf_time_span_days = Some 4\<rparr> \<and>
   compute_issue_resolution (iso_lib 0)
     [PDict [(''state'', PStr ''closed''), (''created_at'', PStr ''2024-01-01T00:00:00Z''),
             (''closed_at'', PStr ''2024-01-03T00:00:00Z'')]] =
     Inr \<lparr>ir_raw = 2, ir_score = 9333 / 100, ir_resolved_count = 1, ir_total_issues = 1\<rparr> \<and>
   compute_pr_rejection
     [PDict [(''state'', PStr ''closed''), (''merged_at'', PStr ''2024-01-02T10:00:00Z'')],
      PDict [(''state'', PStr ''closed''), (''merged_at'', PNone)]] =
     Inr \<lparr>pr_raw = 1 / 2, pr_score = 0, pr_rejected = 1, pr_merged = 1, pr_open = Some 0,
            pr_total = 2\<rparr> \<and>
   compute_test_ratio (iso_lib 0) [PStr ''src/a.py'', PStr ''tests/test_a.py''] =
     Inr \<lparr>tr_raw = 1 / 2, tr_score = 100, tr_test_files = 1, tr_total_files = 2\<rparr> \<and>
   (0 :: real) \<le> 10 \<and> (10 :: real) \<le> 100 \<and> (0 :: real) \<le> 9333 / 100 \<and> (9333 / 100 :: real) \<le> 100 \<and>
   (0 :: real) \<le> 0 \<and> (0 :: real) \<le> 100 \<and> (100 :: real) \<le> 100"
  using metric_scores_in_range
    [of "iso_lib 0"
        "[PDict [(''date'', PStr ''2024-01-01'')], PDict [(''date'', PStr ''2024-01-05'')]]"
        "\<lparr>cf_raw = 1 / 2, cf_score = 10, cf_total_commits = 2, cf_time_span_days = Some 4\<rparr>"
        "[PDict [(''state'', PStr ''closed''), (''created_at'', PStr ''2024-01-01T00:00:00Z''),
                 (''closed_at'', PStr ''2024-01-03T00:00:00Z'')]]"
        "\<lparr>ir_raw = 2, ir_score = 9333 / 100, ir_resolved_count = 1, ir_total_issues = 1\<rparr>"
        "[PDict [(''state'', PStr ''closed''), (''merged_at'', PStr ''2024-01-02T10:00:00Z'')],
          PDict [(''state'', PStr ''closed''), (''merged_at'', PNone)]]"
        "\<lparr>pr_raw = 1 / 2, pr_score = 0, pr_rejected = 1, pr_merged = 1, pr_open = Some 0,
          pr_total = 2\<rparr>"
        "[PStr ''src/a.py'', PStr ''tests/test_a.py'']"
        "\<lparr>tr_raw = 1 / 2, tr_score = 100, tr_test_files = 1, tr_total_files = 2\<rparr>"]
    commit_frequency_example issue_resolution_example pr_rejection_example test_ratio_example
  by simp

subsection \<open>Commit frequency counts every record\<close>

lemma run_loop_append:
  "run_loop body k (xs @ ys) =
     (case run_loop body k xs of
        Inl e \<Rightarrow> Inl e
      | Inr (rs, k') \<Rightarrow>
          (case run_loop body k' ys of
             Inl e \<Rightarrow> Inl e
           | Inr (rs', k'') \<Rightarrow> Inr (rs @ rs', k'')))"
  by (induction xs arbitrary: k) (auto split: sum.splits prod.splits option.splits)

lemma commit_body_no_date:
  "commit_date c = Inr v \<Longrightarrow> \<not> truthy v \<Longrightarrow> commit_body L k c = Inr (None, k)"
  by (simp add: commit_body_def)

lemma collect_dates_snoc_no_date:
  assumes "collect_dates L commits = Inr (dates, k)" "commit_date c = Inr v" "\<not> truthy v"
  shows "collect_dates L (commits @ [c]) = Inr (dates, k)"
  using assms by (simp add: collect_dates_def run_loop_append commit_body_no_date)

lemma sort_key_hd_le_last:
  assumes "xs \<noteq> []"
  shows "f (hd (sort_key f xs)) \<le> f (last (sort_key f xs))"
proof -
  define ys where "ys = sort_key f xs"
  have "length ys = length xs" by (simp add: ys_def)
  then have ne: "ys \<noteq> []" using assms by auto
  have s: "sorted (map f ys)" by (simp add: ys_def)
  have "map f ys ! 0 \<le> map f ys ! (length ys - 1)"
    using s ne by (intro sorted_nth_mono) auto
  then show ?thesis using ne unfolding ys_def [symmetric]
    by (simp add: hd_conv_nth last_conv_nth)
qed

lemma comparable_same_kind:
  "comparable ds \<Longrightarrow> a \<in> set ds \<Longrightarrow> b \<in> set ds \<Longrightarrow> is_aware a = is_aware b"
  by (auto simp: comparable_def list_all_iff)

lemma sort_datetimes_Inr:
  "sort_datetimes ds = Inr sd \<longleftrightarrow> comparable ds \<and> sd = sort_key instant ds"
  by (auto simp: sort_datetimes_def)

lemma sorted_span:
  assumes "sort_datetimes ds = Inr sd" "ds \<noteq> []"
  shows "dt_sub (last sd) (hd sd) = Inr (instant (last sd) - instant (hd sd))"
    and "0 \<le> instant (last sd) - instant (hd sd)"
proof -
  have c: "comparable ds" and sd: "sd = sort_key instant ds"
    using assms(1) by (simp_all add: sort_datetimes_Inr)
  have "length sd = length ds" by (simp add: sd)
  then have ne: "sd \<noteq> []" using assms(2) by auto
  have "last sd \<in> set ds" "hd sd \<in> set ds"
    using ne by (metis last_in_set set_sort sd, metis hd_in_set set_sort sd)
  then have "is_aware (last sd) = is_aware (hd sd)"
    using c by (rule comparable_same_kind [rotated])
  then show "dt_sub (last sd) (hd sd) = Inr (instant (last sd) - instant (hd sd))"
    by (simp add: dt_sub_def)
  show "0 \<le> instant (last sd) - instant (hd sd)"
    using sort_key_hd_le_last [OF assms(2), of instant] by (simp add: sd)
qed

lemma span_days_pos: "0 \<le> delta \<Longrightarrow> 1 \<le> span_days delta"
  unfolding span_days_def timedelta_days_def us_per_day_def Let_def
  by (auto simp: pos_imp_zdiv_nonneg_iff) 

lemma compute_commit_frequency_main:
  assumes "collect_dates L commits = Inr (dates, k)" "2 \<le> length dates"
    "sort_datetimes dates = Inr sd"
  shows "compute_commit_frequency L commits =
           Inr \<lparr>cf_raw = py_round (real (length commits) /
                            of_int (span_days (instant (last sd) - instant (hd sd)))) 4,
                cf_score = normalize_score (real (length commits) /
                            of_int (span_days (instant (last sd) - instant (hd sd)))) 0 5 False,
                cf_total_commits = length commits,
                cf_time_span_days = Some (span_days (instant (last sd) - instant (hd sd)))\<rparr>"
proof -
  have ne: "dates \<noteq> []" using assms(2) by auto
  have c: "commits \<noteq> []" using assms(1,2) by (auto simp: collect_dates_def)
  show ?thesis
    using assms c sorted_span(1) [OF assms(3) ne]
    by (simp add: compute_commit_frequency_def Let_def)
qed

text \<open>
  C10 (as amended).  When the loop has collected at least two dates that the sort can
  compare, the returned \<open>raw\<close> is the number of all input records divided by the
  span in days of the collected dates (at least 1), rounded to four decimals.  A
  record without a timestamp, appended to the list, leaves the span as it is and
  raises the count by one: the frequency before rounding grows strictly, the
  returned \<open>raw\<close> does not shrink.
\<close>

theorem commit_frequency_counts_every_record:
  assumes "collect_dates L commits = Inr (dates, k)"
    and "2 \<le> length dates"
    and "sort_datetimes dates = Inr sorted_dates"
    and "commit_date c = Inr v" and "\<not> truthy v"
  shows "\<exists>r r'. compute_commit_frequency L commits = Inr r \<and>
           compute_commit_frequency L (commits @ [c]) = Inr r' \<and>
           (let time_span = span_days (instant (last sorted_dates) - instant (hd sorted_dates))
            in 1 \<le> time_span \<and>
               cf_time_span_days r = Some time_span \<and>
               cf_time_span_days r' = Some time_span \<and>
               cf_raw r = py_round (real (length commits) / of_int time_span) 4 \<and>
               cf_raw r' = py_round (real (length commits + 1) / of_int time_span) 4 \<and>
               real (length commits) / of_int time_span
                 < real (length commits + 1) / of_int time_span \<and>
               cf_raw r \<le> cf_raw r')"
proof -
  define time_span where
    "time_span = span_days (instant (last sorted_dates) - instant (hd sorted_dates))"
  have ne: "dates \<noteq> []" using assms(2) by auto
  have pos: "1 \<le> time_span"
    unfolding time_span_def by (rule span_days_pos) (rule sorted_span(2) [OF assms(3) ne])
  have r: "compute_commit_frequency L commits = Inr \<lparr>cf_raw = py_round (real (length commits) / of_int time_span) 4,
                cf_score = normalize_score (real (length commits) / of_int time_span) 0 5 False,
                cf_total_commits = length commits,
                cf_time_span_days = Some time_span\<rparr>"
    unfolding time_span_def by (rule compute_commit_frequency_main [OF assms(1-3)])
  have "collect_dates L (commits @ [c]) = Inr (dates, k)"
    by (rule collect_dates_snoc_no_date [OF assms(1,4,5)])
  from compute_commit_frequency_main [OF this assms(2,3)]
  have r': "compute_commit_frequency L (commits @ [c]) = Inr \<lparr>cf_raw = py_round (real (length commits + 1) / of_int time_span) 4,
                cf_score = normalize_score (real (length commits + 1) / of_int time_span) 0 5 False,
                cf_total_commits = length commits + 1,
                cf_time_span_days = Some time_span\<rparr>"
    unfolding time_span_def by simp
  have lt: "real (length commits) / of_int time_span < real (length commits + 1) / of_int time_span"
    using pos by (simp add: divide_strict_right_mono)
  then have le: "py_round (real (length commits) / of_int time_span) 4
       \<le> py_round (real (length commits + 1) / of_int time_span) 4"
    by (intro py_round_mono) simp
  show ?thesis
    unfolding r r' time_span_def [symmetric] Let_def using pos lt le by simp
qed

theorem commit_frequency_counts_every_record_witness:
  "collect_dates (iso_lib 0)
     [PDict [(''date'', PStr ''2024-01-01'')], PDict [(''date'', PStr ''2024-01-05'')]] =
     Inr ([naive 63839750400000000, naive 63840096000000000], 0) \<and>
   2 \<le> length [naive 63839750400000000, naive 63840096000000000] \<and>
   sort_datetimes [naive 63839750400000000, naive 63840096000000000] =
     Inr [naive 63839750400000000, naive 63840096000000000] \<and>
   commit_date (PDict []) = Inr PNone \<and> \<not> truthy PNone \<and>
   (\<exists>r r'. compute_commit_frequency (iso_lib 0)
              [PDict [(''date'', PStr ''2024-01-01'')], PDict [(''date'', PStr ''2024-01-05'')]] = Inr r \<and>
            compute_commit_frequency (iso_lib 0)
              ([PDict [(''date'', PStr ''2024-01-01'')], PDict [(''date'', PStr ''2024-01-05'')]]
                 @ [PDict []]) = Inr r' \<and>
            cf_time_span_days r = Some 4 \<and> cf_time_span_days r' = Some 4 \<and>
            cf_raw r = 1 / 2 \<and> cf_raw r' = 3 / 4)"
proof -
  have h1: "collect_dates (iso_lib 0)
     [PDict [(''date'', PStr ''2024-01-01'')], PDict [(''date'', PStr ''2024-01-05'')]] =
     Inr ([naive 63839750400000000, naive 63840096000000000], 0)"
    by code_simp
  have h2: "2 \<le> length [naive 63839750400000000, naive 63840096000000000]"
    by simp
  have h3: "sort_datetimes [naive 63839750400000000, naive 63840096000000000] =
     Inr [naive 63839750400000000, naive 63840096000000000]"
    by code_simp
  have h4: "commit_date (PDict []) = Inr PNone"
    by (simp add: commit_date_def)
  have h5: "\<not> truthy PNone"
    by simp
  have s: "span_days (instant (last [naive 63839750400000000, naive 63840096000000000]) -
             instant (hd [naive 63839750400000000, naive 63840096000000000])) = 4"
    by code_simp
  have r1: "py_round (real (length
      [PDict [(''date'', PStr ''2024-01-01'')], PDict [(''date'', PStr ''2024-01-05'')]]) / of_int 4) 4 = 1 / 2"
    by (simp add: py_round_def round_half_even_def)
  have r2: "py_round (real (length
      [PDict [(''date'', PStr ''2024-01-01'')], PDict [(''date'', PStr ''2024-01-05'')]] + 1) / of_int 4) 4 = 3 / 4"
    by (simp add: py_round_def round_half_even_def)
  from commit_frequency_counts_every_record [OF h1 h2 h3 h4 h5]
  obtain r r' where
    "compute_commit_frequency (iso_lib 0)
       [PDict [(''date'', PStr ''2024-01-01'')], PDict [(''date'', PStr ''2024-01-05'')]] = Inr r"
    "compute_commit_frequency (iso_lib 0)
       ([PDict [(''date'', PStr ''2024-01-01'')], PDict [(''date'', PStr ''2024-01-05'')]]
          @ [PDict []]) = Inr r'"
    "cf_time_span_days r = Some 4" "cf_time_span_days r' = Some 4"
    "cf_raw r = 1 / 2" "cf_raw r' = 3 / 4"
    unfolding s Let_def r1 r2 by blast
  then show ?thesis
    using h1 h2 h3 h4 h5 by blast
qed

text \<open>
  C10 as stated fails on the returned \<open>raw\<close>: with the dates 1960-01-01 and
  2024-01-01 (23376 days apart) two records give 0.0001, and so do three.
\<close>

theorem commit_frequency_strict_increase_counterexample:
  "compute_commit_frequency (iso_lib 0)
      [PDict [(''date'', PStr ''1960-01-01'')], PDict [(''date'', PStr ''2024-01-01'')]] =
     Inr \<lparr>cf_raw = 1 / 10000, cf_score = 0, cf_total_commits = 2,
            cf_time_span_days = Some 23376\<rparr> \<and>
   compute_commit_frequency (iso_lib 0)
      ([PDict [(''date'', PStr ''1960-01-01'')], PDict [(''date'', PStr ''2024-01-01'')]]
         @ [PDict []]) =
     Inr \<lparr>cf_raw = 1 / 10000, cf_score = 0, cf_total_commits = 3,
            cf_time_span_days = Some 23376\<rparr>"
  by code_simp

section \<open>Inputs on which the code departs from its description\<close>

text \<open>
  C1.  The metric computers raise on some malformed inputs.  An unparseable
  timestamp falls back to the naive \<^verbatim>\<open>datetime.now()\<close>; next to a timestamp with a
  zone, which parses to an aware value, the sort of \<^verbatim>\<open>compute_commit_frequency\<close>
  raises \<^verbatim>\<open>TypeError\<close>, and so does the subtraction of
  \<^verbatim>\<open>compute_issue_resolution\<close> on an issue created at a time with a zone and
  closed at a date without one.  A \<^verbatim>\<open>state\<close> that is \<^verbatim>\<open>None\<close> has no
  \<^verbatim>\<open>lower\<close>, and neither has a \<^verbatim>\<open>path\<close> that is a number:
  \<^verbatim>\<open>compute_pr_rejection\<close> and \<^verbatim>\<open>compute_test_ratio\<close> raise
  \<^verbatim>\<open>AttributeError\<close>.  The clock reads 2025-01-01T00:00:00.
\<close>

theorem metric_computers_raise_on_malformed_input:
  "compute_commit_frequency (iso_lib 63871372800000000)
     [PDict [(''date'', PStr ''2024-01-01T10:00:00Z'')], PDict [(''date'', PStr ''not-a-date'')]] =
     Inl TypeError \<and>
   compute_issue_resolution (iso_lib 63871372800000000)
     [PDict [(''state'', PStr ''closed''), (''created_at'', PStr ''2024-01-01T00:00:00Z''),
             (''closed_at'', PStr ''2024-01-03'')]] = Inl TypeError \<and>
   compute_pr_rejection [PDict [(''state'', PNone)]] = Inl AttributeError \<and>
   compute_test_ratio (iso_lib 63871372800000000) [PDict [(''path'', PInt 5)]] = Inl AttributeError"
  by code_simp

text \<open>
  C8.  The examples of the specification hold: of \<open>src/a.py\<close> and
  \<open>tests/test_a.py\<close> both are counted and one is a test file, the ratio being 0.5,
  and \<open>logo.png\<close> and \<open>README.md\<close> are not counted at all.  But the patterns are
  searched for anywhere in the path: \<open>contest/a.py\<close> is counted as a test file
  because it contains \<open>test/\<close>, though no segment of it is \<open>tests\<close>, \<open>test\<close> or
  \<open>__tests__\<close> and its file name has none of the listed forms.
\<close>

theorem test_ratio_examples_and_substring_match:
  "compute_test_ratio (iso_lib 0) [PStr ''src/a.py'', PStr ''tests/test_a.py''] =
     Inr \<lparr>tr_raw = 1 / 2, tr_score = 100, tr_test_files = 1, tr_total_files = 2\<rparr> \<and>
   compute_test_ratio (iso_lib 0) [PStr ''logo.png'', PStr ''README.md''] =
     Inr \<lparr>tr_raw = 0, tr_score = 0, tr_test_files = 0, tr_total_files = 0\<rparr> \<and>
   compute_test_ratio (iso_lib 0) [PStr ''contest/a.py''] =
     Inr \<lparr>tr_raw = 1, tr_score = 100, tr_test_files = 1, tr_total_files = 1\<rparr> \<and>
   search test_regex ''contest/a.py'' \<and>
   \<not> spec_is_test_path ''contest/a.py''"
proof -
  have contest: "search test_regex ''contest/a.py''"
    by code_simp
  have ext: "has_code_extension ''contest/a.py''"
    by code_simp
  have r: "py_round 1 4 = 1" "normalize_score 1 0 0.3 False = 100"
    by (simp_all add: normalize_score_def py_round_def round_half_even_def)
  have "compute_test_ratio (iso_lib 0) [PStr ''contest/a.py''] =
     Inr \<lparr>tr_raw = 1, tr_score = 100, tr_test_files = 1, tr_total_files = 1\<rparr>"
    using contest ext r by (simp add: compute_test_ratio_def file_path_of_def Let_def)
  moreover have "compute_test_ratio (iso_lib 0) [PStr ''logo.png'', PStr ''README.md''] =
     Inr \<lparr>tr_raw = 0, tr_score = 0, tr_test_files = 0, tr_total_files = 0\<rparr>"
    by code_simp
  moreover have "\<not> spec_is_test_path ''contest/a.py''"
    by code_simp
  ultimately show ?thesis
    using test_ratio_example contest by simp
qed

section \<open>Properties of the linear regression\<close>















section \<open>Order and clock independence\<close>



























section \<open>The daily series of the commit trend\<close>

lemma series_loop_upto:
  "series_loop m a b = map (\<lambda>day. (day, day_count m day)) [a..b]"
proof (induction m a b rule: series_loop.induct)
  case (1 m a b)
  show ?case
  proof (cases "a \<le> b")
    case True
    then have "[a..b] = a # [a + 1..b]" by (simp add: upto_rec1)
    then show ?thesis using True 1 by (subst series_loop.simps) (simp add: day_count_def)
  next
    case False
    then show ?thesis by (subst series_loop.simps) simp
  qed
qed

lemma count_days_count:
  "day_count (count_days ds m) day = day_count m day + length (filter (\<lambda>d. date_of d = day) ds)"
  by (induction ds arbitrary: m) (auto simp: day_count_def)

lemma py_min_from_least:
  "py_min_from m ds \<in> set (m # ds) \<and> (\<forall>x \<in> set (m # ds). instant (py_min_from m ds) \<le> instant x)"
proof (induction ds arbitrary: m)
  case Nil
  then show ?case by simp
next
  case (Cons d ds)
  from Cons [of "if instant d < instant m then d else m"]
  show ?case by (auto split: if_splits)
qed

lemma py_max_from_greatest:
  "py_max_from m ds \<in> set (m # ds) \<and> (\<forall>x \<in> set (m # ds). instant x \<le> instant (py_max_from m ds))"
proof (induction ds arbitrary: m)
  case Nil
  then show ?case by simp
next
  case (Cons d ds)
  from Cons [of "if instant m < instant d then d else m"]
  show ?case by (auto split: if_splits)
qed

lemma date_of_mono:
  assumes "utcoffset x = off" "utcoffset y = off" "instant x \<le> instant y"
  shows "date_of x \<le> date_of y"
proof -
  have "wall x \<le> wall y" using assms by (auto simp: instant_def split: option.splits)
  then show ?thesis unfolding date_of_def us_per_day_def by (rule zdiv_mono1) simp
qed

lemma indicator_sum_upto:
  assumes "a \<le> (v :: int)" "v \<le> b"
  shows "(\<Sum>day \<leftarrow> [a..b]. if v = day then 1 else 0 :: nat) = 1"
proof -
  have "(\<Sum>day \<leftarrow> [a..b]. if v = day then 1 else 0 :: nat) =
        (\<Sum>day \<in> set [a..b]. if v = day then 1 else 0)"
    by (rule sum_list_distinct_conv_sum_set) simp
  also have "\<dots> = 1" using assms by simp
  finally show ?thesis .
qed

lemma counts_sum:
  assumes "\<forall>d \<in> set ds. a \<le> date_of d \<and> date_of d \<le> b"
  shows "(\<Sum>day \<leftarrow> [a..b]. length (filter (\<lambda>d. date_of d = day) ds)) = length ds"
  using assms
proof (induction ds)
  case Nil
  then show ?case by simp
next
  case (Cons d ds)
  have "(\<Sum>day \<leftarrow> [a..b]. length (filter (\<lambda>d. date_of d = day) (d # ds))) =
        (\<Sum>day \<leftarrow> [a..b]. (if date_of d = day then 1 else 0) +
           length (filter (\<lambda>d. date_of d = day) ds))"
    by (intro arg_cong [where f = sum_list] map_cong) auto
  also have "\<dots> = (\<Sum>day \<leftarrow> [a..b]. if date_of d = day then 1 else 0) +
        (\<Sum>day \<leftarrow> [a..b]. length (filter (\<lambda>d. date_of d = day) ds))"
    by (simp add: sum_list_addf)
  also have "\<dots> = 1 + length ds"
    using Cons indicator_sum_upto [of a "date_of d" b] by simp
  finally show ?case by simp
qed


lemma one_offset_comparable:
  assumes "\<forall>d \<in> set ds. utcoffset d = off"
  shows "comparable ds"
  using assms by (cases off) (auto simp: comparable_def list_all_iff is_aware_def)

lemma length_filter_sort_key:
  "length (filter P (sort_key f xs)) = length (filter P xs)"
  by (metis mset_filter mset_sort size_mset)

lemma compute_commit_trend_series:
  assumes "collect_dates L commits = Inr (dates, k)" "2 \<le> length dates" "comparable dates"
  shows "\<exists>r. compute_commit_trend L commits = Inr r \<and>
           ct_time_series r =
             series_loop (count_days (sort_key instant dates) Map.empty)
               (date_of (py_min_from (hd (sort_key instant dates)) (tl (sort_key instant dates))))
               (date_of (py_max_from (hd (sort_key instant dates)) (tl (sort_key instant dates))))"
proof -
  have c: "commits \<noteq> []" using assms(1,2) by (auto simp: collect_dates_def)
  show ?thesis
    using assms c by (simp add: compute_commit_trend_def sort_datetimes_def Let_def)
qed

text \<open>
  When the collected dates are all naive, or all carry one and the same UTC offset,
  the series has exactly one entry for every day from the earliest to the latest
  date, in ascending order, each with the number of dates of that day, and the counts
  add up to the number of dates.
\<close>

lemma commit_trend_series_gap_free:
  assumes "collect_dates L commits = Inr (dates, k)"
    and "2 \<le> length dates"
    and "\<forall>d \<in> set dates. utcoffset d = off"
  shows "\<exists>r. compute_commit_trend L commits = Inr r \<and>
           ct_time_series r =
             map (\<lambda>day. (day, length (filter (\<lambda>d. date_of d = day) dates)))
               [Min (date_of ` set dates) .. Max (date_of ` set dates)] \<and>
           sum_list (map snd (ct_time_series r)) = length dates"
proof -
  define sd where "sd = sort_key instant dates"
  define lo where "lo = date_of (py_min_from (hd sd) (tl sd))"
  define hi where "hi = date_of (py_max_from (hd sd) (tl sd))"
  have ne: "dates \<noteq> []" using assms(2) by auto
  have "length sd = length dates" by (simp add: sd_def)
  then have sne: "sd \<noteq> []" using ne by auto
  have ssd: "set sd = set dates" by (simp add: sd_def)
  have cons: "set (hd sd # tl sd) = set dates" using sne ssd by simp
  have off: "\<forall>d \<in> set (hd sd # tl sd). utcoffset d = off" using assms(3) cons by simp
  have mn: "py_min_from (hd sd) (tl sd) \<in> set dates"
    and mn_le: "\<forall>x \<in> set dates. instant (py_min_from (hd sd) (tl sd)) \<le> instant x"
    using py_min_from_least [of "hd sd" "tl sd"] unfolding cons by blast+
  have mx: "py_max_from (hd sd) (tl sd) \<in> set dates"
    and mx_ge: "\<forall>x \<in> set dates. instant x \<le> instant (py_max_from (hd sd) (tl sd))"
    using py_max_from_greatest [of "hd sd" "tl sd"] unfolding cons by blast+
  have lo_le: "lo \<le> date_of d" if "d \<in> set dates" for d
  proof -
    have "utcoffset (py_min_from (hd sd) (tl sd)) = off" "utcoffset d = off"
      using assms(3) mn that by blast+
    moreover have "instant (py_min_from (hd sd) (tl sd)) \<le> instant d"
      using mn_le that by blast
    ultimately show ?thesis unfolding lo_def by (rule date_of_mono)
  qed
  have hi_ge: "date_of d \<le> hi" if "d \<in> set dates" for d
  proof -
    have "utcoffset d = off" "utcoffset (py_max_from (hd sd) (tl sd)) = off"
      using assms(3) mx that by blast+
    moreover have "instant d \<le> instant (py_max_from (hd sd) (tl sd))"
      using mx_ge that by blast
    ultimately show ?thesis unfolding hi_def by (rule date_of_mono)
  qed
  have lo: "lo = Min (date_of ` set dates)"
  proof (rule Min_eqI [symmetric])
    show "finite (date_of ` set dates)" by simp
    show "lo \<in> date_of ` set dates" unfolding lo_def using mn by (rule imageI)
    show "\<And>y. y \<in> date_of ` set dates \<Longrightarrow> lo \<le> y" using lo_le by blast
  qed
  have hi: "hi = Max (date_of ` set dates)"
  proof (rule Max_eqI [symmetric])
    show "finite (date_of ` set dates)" by simp
    show "hi \<in> date_of ` set dates" unfolding hi_def using mx by (rule imageI)
    show "\<And>y. y \<in> date_of ` set dates \<Longrightarrow> y \<le> hi" using hi_ge by blast
  qed
  from compute_commit_trend_series [OF assms(1,2) one_offset_comparable [OF assms(3)]]
  obtain r where r: "compute_commit_trend L commits = Inr r"
    and ts: "ct_time_series r = series_loop (count_days sd Map.empty) lo hi"
    unfolding sd_def lo_def hi_def by blast
  have dc: "day_count (count_days sd Map.empty) day =
      length (filter (\<lambda>d. date_of d = day) dates)" for day
    unfolding count_days_count by (simp add: day_count_def sd_def length_filter_sort_key)
  have ts': "ct_time_series r =
      map (\<lambda>day. (day, length (filter (\<lambda>d. date_of d = day) dates))) [lo..hi]"
    unfolding ts series_loop_upto dc ..
  have "sum_list (map snd (ct_time_series r)) =
        (\<Sum>day \<leftarrow> [lo..hi]. length (filter (\<lambda>d. date_of d = day) dates))"
    unfolding ts' by (simp add: comp_def)
  also have "\<dots> = length dates"
    by (rule counts_sum) (use lo_le hi_ge in blast)
  finally have sm: "sum_list (map snd (ct_time_series r)) = length dates" .
  show ?thesis
    using r ts' sm unfolding lo hi by blast
qed

text \<open>
  C6.  The series is bucketed by the local calendar day of each timestamp, while its
  first and last day are taken from the least and the greatest instant.  For the two
  commits 2024-01-02T00:30:00+05:00 and 2024-01-01T23:00:00+00:00 the earlier instant
  has the later local day: both timestamps parse, and the series is empty.
\<close>

theorem commit_trend_series_misses_commits:
  "collect_dates (iso_lib 0)
     [PDict [(''date'', PStr ''2024-01-02T00:30:00+05:00'')],
      PDict [(''date'', PStr ''2024-01-01T23:00:00+00:00'')]] =
     Inr ([\<lparr>wall = 63839838600000000, utcoffset = Some 18000000000\<rparr>,
           \<lparr>wall = 63839833200000000, utcoffset = Some 0\<rparr>], 0) \<and>
   map date_of [\<lparr>wall = 63839838600000000, utcoffset = Some 18000000000\<rparr>,
                \<lparr>wall = 63839833200000000, utcoffset = Some 0\<rparr>] = [738887, 738886] \<and>
   compute_commit_trend (iso_lib 0)
     [PDict [(''date'', PStr ''2024-01-02T00:30:00+05:00'')],
      PDict [(''date'', PStr ''2024-01-01T23:00:00+00:00'')]] =
     Inr \<lparr>ct_time_series = [], ct_moving_average = MaDated [],
            ct_daily_values = Some [], ct_ma7_values = Some [],
            ct_regression = \<lparr>slope = 0, intercept = 0, r_squared = 0\<rparr>,
            ct_trend_direction = Sabit, ct_trend_strength = Belirsiz,
            ct_average_daily_commits = Some 0, ct_total_days = Some 0,
            ct_summary = CommitSummary 0 Belirsiz Sabit 0 0\<rparr>"
  by code_simp

end
